theory Spec2Isabelle
  imports Complex_Main "HOL-Library.Word"
begin

section \<open>Values shared by the whole dispatcher\<close>

text \<open>
  Errors are values.  \<open>Error\<close> is a plain Go error (\<open>errors.New\<close>, \<open>fmt.Errorf\<close>, or any
  error value of a backend that is not an \<open>HTTPError\<close>); \<open>NumError\<close> is the
  \<open>*strconv.NumError\<close> of \<open>strconv.ParseUint\<close> (the offending text and the reason);
  \<open>HTTPError\<close> is what \<open>NewHTTPError(err, msg, status)\<close> builds (the wrapped error, the
  message and the HTTP status that \<open>handleError\<close> reads back as \<open>e.status\<close>); \<open>Panic\<close> is a
  runtime panic, which is not returned to the route but unwinds through it.
\<close>

datatype error =
    Error string
  | NumError string string
  | HTTPError "error option" string int
  | Panic string

text \<open>
  \<open>url.Values\<close> and \<open>http.Header\<close> are maps from a key to a list of strings.  The parsers
  of net/url and net/http only ever create an entry together with its first value, so an
  entry is modelled as its first value and the list of the further ones: \<open>values[0]\<close> is
  the first component.
\<close>

type_synonym Values = "string \<rightharpoonup> string \<times> string list"

definition Get :: "Values \<Rightarrow> string \<Rightarrow> string" where
  "Get v key = (case v key of None \<Rightarrow> [] | Some (x, _) \<Rightarrow> x)"

definition Set_value :: "Values \<Rightarrow> string \<Rightarrow> string \<Rightarrow> Values" where
  "Set_value v key x = v(key \<mapsto> (x, []))"

text \<open>
  The request as the dispatcher reads it: \<open>r.URL.Path\<close>, \<open>r.URL.Query()\<close>, \<open>r.Header\<close>, and
  the outcome of \<open>ioutil.ReadAll(r.Body)\<close>.
\<close>

record request =
  URL_Path :: string
  URL_Query :: Values
  Header :: Values
  Body :: "error + string"

record information =
  prefix :: string
  baseURL :: string

definition GetBaseURL :: "information \<Rightarrow> string" where
  "GetBaseURL i = baseURL i"

definition GetPrefix :: "information \<Rightarrow> string" where
  "GetPrefix i = prefix i"

section \<open>Library functions the dispatcher calls\<close>

subsection \<open>strings.Split with a one-byte separator\<close>

fun Split :: "string \<Rightarrow> char \<Rightarrow> string list" where
  "Split [] sep = [[]]"
| "Split (c # cs) sep =
     (if c = sep then [] # Split cs sep
      else (case Split cs sep of [] \<Rightarrow> [[c]] | x # xs \<Rightarrow> (c # x) # xs))"

fun Join :: "string list \<Rightarrow> char \<Rightarrow> string" where
  "Join [] sep = []"
| "Join [x] sep = x"
| "Join (x # y # ys) sep = x @ sep # Join (y # ys) sep"

subsection \<open>strconv.ParseUint(s, 10, 64) and strconv.FormatUint(n, 10)\<close>

type_synonym uint64 = "64 word"

definition is_digit :: "char \<Rightarrow> bool" where
  "is_digit c = (48 \<le> (of_char c :: nat) \<and> (of_char c :: nat) \<le> 57)"

definition digit_value :: "char \<Rightarrow> nat" where
  "digit_value c = (of_char c :: nat) - 48"

definition digit_char :: "nat \<Rightarrow> char" where
  "digit_char d = char_of (48 + d)"

text \<open>
  The loop of \<open>ParseUint\<close> in base 10: a byte that is not a decimal digit is a syntax
  error, a value that leaves 64 bits is a range error, whichever comes first.
\<close>

fun parse_digits :: "nat \<Rightarrow> string \<Rightarrow> string + nat" where
  "parse_digits n [] = Inr n"
| "parse_digits n (c # cs) =
     (if \<not> is_digit c then Inl ''invalid syntax''
      else if 2 ^ 64 \<le> n * 10 + digit_value c then Inl ''value out of range''
      else parse_digits (n * 10 + digit_value c) cs)"

definition ParseUint :: "string \<Rightarrow> error + uint64" where
  "ParseUint s =
     (if s = [] then Inl (NumError s ''invalid syntax'')
      else (case parse_digits 0 s of
              Inl why \<Rightarrow> Inl (NumError s why)
            | Inr n \<Rightarrow> Inr (word_of_nat n)))"

function decimal :: "nat \<Rightarrow> string" where
  "decimal n = (if n < 10 then [digit_char n] else decimal (n div 10) @ [digit_char (n mod 10)])"
  by pat_completeness auto
termination
  by (relation "measure id") auto

declare decimal.simps [simp del]

definition FormatUint :: "uint64 \<Rightarrow> string" where
  "FormatUint n = decimal (unat n)"

text \<open>The number a string of decimal digits denotes, read from the left.\<close>

definition digits_value :: "nat \<Rightarrow> string \<Rightarrow> nat" where
  "digits_value acc s = foldl (\<lambda>a c. a * 10 + digit_value c) acc s"

section \<open>Pagination\<close>

record paginationQueryParams =
  number :: string
  size' :: string
  offset :: string
  limit :: string

definition newPaginationQueryParams :: "request \<Rightarrow> paginationQueryParams" where
  "newPaginationQueryParams r =
     (let queryParams = URL_Query r in
      \<lparr> number = Get queryParams ''page[number]'',
        size' = Get queryParams ''page[size]'',
        offset = Get queryParams ''page[offset]'',
        limit = Get queryParams ''page[limit]'' \<rparr>)"

definition isValid :: "paginationQueryParams \<Rightarrow> bool" where
  "isValid p =
     (if number p = [] \<and> size' p = [] \<and> offset p = [] \<and> limit p = [] then False
      else if number p \<noteq> [] \<and> size' p \<noteq> [] \<and> offset p = [] \<and> limit p = [] then True
      else if number p = [] \<and> size' p = [] \<and> offset p \<noteq> [] \<and> limit p \<noteq> [] then True
      else False)"

text \<open>
  A pagination link is \<open>fmt.Sprintf("%s?%s", requestURL, query)\<close>, where \<open>query\<close> is the
  unescaped encoding of the parameter set at that moment.  The link is kept as the pair of
  the request URL and that parameter set: the encoding itself belongs to net/url.
\<close>

datatype link = Link string Values

text \<open>
  \<open>getLinks\<close> has named results: on every \<open>return\<close> it hands back the links collected so
  far together with the error.  \<open>count\<close> is a Go \<open>uint\<close>, converted with \<open>uint64(count)\<close>;
  all arithmetic is 64-bit unsigned and wraps.  An integer division by zero panics.
\<close>

definition getLinks ::
  "paginationQueryParams \<Rightarrow> request \<Rightarrow> uint64 \<Rightarrow> information \<Rightarrow> (string \<rightharpoonup> link) \<times> error option"
where
  "getLinks p r count info =
     (let result0 = Map.empty;
          params0 = URL_Query r;
          pre = (if GetBaseURL info \<noteq> [] then GetBaseURL info else []);
          requestURL = pre @ URL_Path r
      in
      if number p \<noteq> [] then
        (case ParseUint (number p) of
           Inl err \<Rightarrow> (result0, Some err)
         | Inr num \<Rightarrow>
             (let (params1, result1) =
                (if number p \<noteq> ''1'' then
                   (let paramsA = Set_value params0 ''page[number]'' ''1'';
                        resultA = result0(''first'' \<mapsto> Link requestURL paramsA);
                        paramsB = Set_value paramsA ''page[number]'' (FormatUint (num - 1));
                        resultB = resultA(''prev'' \<mapsto> Link requestURL paramsB)
                    in (paramsB, resultB))
                 else (params0, result0))
              in
              (case ParseUint (size' p) of
                 Inl err \<Rightarrow> (result1, Some err)
               | Inr sz \<Rightarrow>
                   if sz = 0 then (result1, Some (Panic ''runtime error: integer divide by zero''))
                   else
                     (let totalPages0 = count div sz;
                          totalPages = (if count mod sz \<noteq> 0 then totalPages0 + 1 else totalPages0)
                      in
                      if num \<noteq> totalPages then
                        (let paramsC = Set_value params1 ''page[number]'' (FormatUint (num + 1));
                             resultC = result1(''next'' \<mapsto> Link requestURL paramsC);
                             paramsD = Set_value paramsC ''page[number]'' (FormatUint totalPages);
                             resultD = resultC(''last'' \<mapsto> Link requestURL paramsD)
                         in (resultD, None))
                      else (result1, None)))))
      else
        (case ParseUint (offset p) of
           Inl err \<Rightarrow> (result0, Some err)
         | Inr ofs \<Rightarrow>
             (case ParseUint (limit p) of
                Inl err \<Rightarrow> (result0, Some err)
              | Inr lmt \<Rightarrow>
                  (let (params1, result1) =
                     (if offset p \<noteq> ''0'' then
                        (let paramsA = Set_value params0 ''page[offset]'' ''0'';
                             resultA = result0(''first'' \<mapsto> Link requestURL paramsA);
                             prevOffset = (if lmt > ofs then 0 else ofs - lmt);
                             paramsB = Set_value paramsA ''page[offset]'' (FormatUint prevOffset);
                             resultB = resultA(''prev'' \<mapsto> Link requestURL paramsB)
                         in (paramsB, resultB))
                      else (params0, result0))
                   in
                   if ofs + lmt < count then
                     (let paramsC = Set_value params1 ''page[offset]'' (FormatUint (ofs + lmt));
                          resultC = result1(''next'' \<mapsto> Link requestURL paramsC);
                          paramsD = Set_value paramsC ''page[offset]'' (FormatUint (count - lmt));
                          resultD = resultC(''last'' \<mapsto> Link requestURL paramsD)
                      in (resultD, None))
                   else (result1, None)))))"

text \<open>
  The link the planner is meant to emit for one page parameter: the original request path
  and query with only that parameter rewritten.
\<close>

definition pageLink :: "request \<Rightarrow> information \<Rightarrow> string \<Rightarrow> string \<Rightarrow> link" where
  "pageLink r info key v = Link (baseURL info @ URL_Path r) ((URL_Query r)(key \<mapsto> (v, [])))"

section \<open>Requests handed to the backend\<close>

record Request =
  PlainRequest :: request
  QueryParams :: "string \<rightharpoonup> string list"
  Header' :: Values

definition buildRequest :: "request \<Rightarrow> Request" where
  "buildRequest r =
     \<lparr> PlainRequest = r,
       QueryParams = (\<lambda>key. case URL_Query r key of
                              None \<Rightarrow> None
                            | Some (v0, _) \<Rightarrow> Some (Split v0 CHR '','')),
       Header' = Header r \<rparr>"

section \<open>Documents, codecs and the response writer\<close>

datatype json =
    JNull
  | JBool bool
  | JNumber string
  | JString string
  | JArray "json list"
  | JObject "(string \<times> json) list"

type_synonym jsonmap = "(string \<times> json) list"

text \<open>
  The document handed to a codec: the map \<open>jsonapi.MarshalWithURLs\<close> returned, and the
  \<open>links\<close> and \<open>meta\<close> members the dispatcher stores into it.
\<close>

record document =
  members :: jsonmap
  doc_links :: "(string \<rightharpoonup> link) option"
  doc_meta :: "jsonmap option"

record ContentMarshaler =
  Marshal :: "document \<Rightarrow> error + string"
  Unmarshal :: "string \<Rightarrow> error + jsonmap"
  MarshalError :: "error \<Rightarrow> string"

text \<open>
  What the dispatcher takes from outside this file for codec selection: the default codec
  \<open>JSONContentMarshaler{}\<close> and \<open>httputil.NegotiateContentType\<close>.
\<close>

record httplib =
  JSONContentMarshaler :: ContentMarshaler
  NegotiateContentType :: "request \<Rightarrow> string list \<Rightarrow> string \<Rightarrow> string"

definition defaultContentTypHeader :: string where
  "defaultContentTypHeader = ''application/vnd.api+json''"

text \<open>
  The registry \<open>map[string]ContentMarshaler\<close> is an association list; \<open>range marshalers\<close>
  visits its keys in the order of the list (Go leaves the order open, and every order is
  some list).  A missing entry and a nil entry both read as \<open>None\<close>.
\<close>

definition selectContentMarshaler ::
  "httplib \<Rightarrow> request \<Rightarrow> (string \<times> ContentMarshaler) list \<Rightarrow> ContentMarshaler \<times> string"
where
  "selectContentMarshaler lib r marshalers =
     (let (marshaler, contentType) =
        (if Header r ''Accept'' \<noteq> None then
           (let contentTypes = map fst marshalers;
                ct = NegotiateContentType lib r contentTypes defaultContentTypHeader
            in (map_of marshalers ct, ct))
         else
           (case Header r ''Content-Type'' of
              Some (ct0, _) \<Rightarrow> (map_of marshalers ct0, ct0)
            | None \<Rightarrow> (None, [])))
      in
      (case marshaler of
         None \<Rightarrow> (JSONContentMarshaler lib, defaultContentTypHeader)
       | Some m \<Rightarrow> (m, contentType)))"

text \<open>
  The \<open>http.ResponseWriter\<close> is the list of the calls made on it, in order.
\<close>

datatype event = SetHeader string string | WriteHeader int | Write string

definition writeResult :: "event list \<Rightarrow> string \<Rightarrow> int \<Rightarrow> string \<Rightarrow> event list" where
  "writeResult w data status contentType =
     w @ [SetHeader ''Content-Type'' contentType, WriteHeader status, Write data]"

text \<open>
  What net/http makes of the calls: the status line is that of the first \<open>WriteHeader\<close>
  (later ones are ignored), or 200 when the body is written first; the headers sent are
  those set before that moment.
\<close>

fun statusCode :: "event list \<Rightarrow> int option" where
  "statusCode [] = None"
| "statusCode (WriteHeader n # es) = Some n"
| "statusCode (Write d # es) = Some 200"
| "statusCode (SetHeader k v # es) = statusCode es"

fun headersFrom :: "(string \<rightharpoonup> string) \<Rightarrow> event list \<Rightarrow> (string \<rightharpoonup> string)" where
  "headersFrom h [] = h"
| "headersFrom h (SetHeader k v # es) = headersFrom (h(k \<mapsto> v)) es"
| "headersFrom h (WriteHeader n # es) = h"
| "headersFrom h (Write d # es) = h"

definition sentHeaders :: "event list \<Rightarrow> (string \<rightharpoonup> string)" where
  "sentHeaders w = headersFrom Map.empty w"

definition unmarshalRequest ::
  "httplib \<Rightarrow> request \<Rightarrow> (string \<times> ContentMarshaler) list \<Rightarrow> error + jsonmap"
where
  "unmarshalRequest lib r marshalers =
     (case Body r of
        Inl e \<Rightarrow> Inl e
      | Inr data \<Rightarrow>
          (let (marshaler, _) = selectContentMarshaler lib r marshalers in
           (case Unmarshal marshaler data of
              Inl e \<Rightarrow> Inl e
            | Inr result \<Rightarrow> Inr result)))"

definition marshalResponse ::
  "httplib \<Rightarrow> document \<Rightarrow> event list \<Rightarrow> int \<Rightarrow> request \<Rightarrow> (string \<times> ContentMarshaler) list
    \<Rightarrow> event list \<times> error option"
where
  "marshalResponse lib resp w status r marshalers =
     (let (marshaler, contentType) = selectContentMarshaler lib r marshalers in
      (case Marshal marshaler resp of
         Inl e \<Rightarrow> (w, Some e)
       | Inr result \<Rightarrow> (writeResult w result status contentType, None)))"

definition handleError ::
  "httplib \<Rightarrow> error \<Rightarrow> event list \<Rightarrow> request \<Rightarrow> (string \<times> ContentMarshaler) list \<Rightarrow> event list"
where
  "handleError lib e w r marshalers =
     (let (marshaler, contentType) = selectContentMarshaler lib r marshalers in
      (case e of
         HTTPError cause msg status \<Rightarrow> writeResult w (MarshalError marshaler e) status contentType
       | _ \<Rightarrow> writeResult w (MarshalError marshaler e) 500 contentType))"


section \<open>The backend, the jsonapi engine and a registered resource\<close>

text \<open>
  A Go \<open>interface{}\<close> value is \<open>None\<close> for nil and \<open>Some v\<close> otherwise, with \<open>'v\<close> the
  values a backend hands around.  A \<open>Responder\<close> is read through its three methods.
\<close>

record 'v response =
  Meta :: jsonmap
  Data :: "'v option"
  Status :: int

definition Metadata :: "'v response \<Rightarrow> jsonmap" where
  "Metadata r = Meta r"

definition Result :: "'v response \<Rightarrow> 'v option" where
  "Result r = Data r"

definition StatusCode :: "'v response \<Rightarrow> int" where
  "StatusCode r = Status r"

text \<open>
  The backend is stateful: every call takes the backend state and returns the next one.
  \<open>FindAll\<close> and \<open>PaginatedFindAll\<close> are optional interfaces, found by a type assertion.
\<close>

record ('v, 's) CRUD =
  FindOne :: "string \<Rightarrow> Request \<Rightarrow> 's \<Rightarrow> (error + 'v response) \<times> 's"
  Create :: "'v \<Rightarrow> Request \<Rightarrow> 's \<Rightarrow> (error + 'v response) \<times> 's"
  Delete :: "string \<Rightarrow> Request \<Rightarrow> 's \<Rightarrow> (error + 'v response) \<times> 's"
  Update :: "'v \<Rightarrow> Request \<Rightarrow> 's \<Rightarrow> (error + 'v response) \<times> 's"
  FindAll :: "(Request \<Rightarrow> 's \<Rightarrow> (error + 'v response) \<times> 's) option"
  PaginatedFindAll :: "(Request \<Rightarrow> 's \<Rightarrow> (error + uint64 \<times> 'v response) \<times> 's) option"

record Reference =
  Type :: string
  Name :: string

text \<open>
  The methods of a value that implements \<open>jsonapi.EditToManyRelations\<close>; each returns the
  value after the edit.
\<close>

record 'v EditToManyRelations =
  AddToManyIDs :: "string \<Rightarrow> string list \<Rightarrow> 'v"
  DeleteToManyIDs :: "string \<Rightarrow> string list \<Rightarrow> 'v"

text \<open>
  What the dispatcher takes from package jsonapi and from reflection: \<open>GetID\<close> of a value
  that implements \<open>MarshalIdentifier\<close> (\<open>None\<close> when the type assertion fails), whether a
  value can be stored in a slice of the resource type, the three engine entry points, and
  the \<open>EditToManyRelations\<close> assertion on the value being edited.
\<close>

record 'v jsonapi =
  GetID :: "'v \<Rightarrow> string option"
  assignable :: "'v \<Rightarrow> bool"
  MarshalWithURLs :: "'v option \<Rightarrow> information \<Rightarrow> error + jsonmap"
  UnmarshalInto :: "jsonmap \<Rightarrow> 'v list \<Rightarrow> error + 'v list"
  UnmarshalRelationshipsData :: "'v \<Rightarrow> string \<Rightarrow> json \<Rightarrow> error + 'v"
  EditToMany :: "'v \<Rightarrow> 'v EditToManyRelations option"

record ('v, 's) resource =
  source :: "('v, 's) CRUD"
  name :: string
  marshalers :: "(string \<times> ContentMarshaler) list"

text \<open>
  A handler's run: the error it returns, the writer afterwards, the backend state
  afterwards, and the calls it made on the backend and on the edited value, in order.
\<close>

datatype 'v call =
    Call_FindOne string
  | Call_FindAll
  | Call_PaginatedFindAll
  | Call_Create 'v
  | Call_Update 'v
  | Call_Delete string
  | Call_AddToManyIDs string "string list"
  | Call_DeleteToManyIDs string "string list"

record ('v, 's) outcome =
  err :: "error option"
  writer :: "event list"
  backend :: 's
  calls :: "'v call list"

definition finish :: "event list \<times> error option \<Rightarrow> 's \<Rightarrow> 'v call list \<Rightarrow> ('v, 's) outcome" where
  "finish we s cs = \<lparr> err = snd we, writer = fst we, backend = s, calls = cs \<rparr>"

definition fail :: "error \<Rightarrow> event list \<Rightarrow> 's \<Rightarrow> 'v call list \<Rightarrow> ('v, 's) outcome" where
  "fail e w s cs = \<lparr> err = Some e, writer = w, backend = s, calls = cs \<rparr>"

text \<open>
  The closure every route registers in \<open>addResource\<close>: run the handler and, when it
  returns an error, call \<open>handleError\<close>.  A panic is not a returned error.
\<close>

definition route ::
  "httplib \<Rightarrow> request \<Rightarrow> (string \<times> ContentMarshaler) list \<Rightarrow> ('v, 's) outcome \<Rightarrow> ('v, 's) outcome"
where
  "route lib r ms out =
     (case err out of
        None \<Rightarrow> out
      | Some (Panic m) \<Rightarrow> out
      | Some e \<Rightarrow> out\<lparr> writer := handleError lib e (writer out) r ms \<rparr>)"

definition respondWith ::
  "'v jsonapi \<Rightarrow> httplib \<Rightarrow> 'v response \<Rightarrow> information \<Rightarrow> int \<Rightarrow> event list \<Rightarrow> request
    \<Rightarrow> (string \<times> ContentMarshaler) list \<Rightarrow> event list \<times> error option"
where
  "respondWith api lib obj info status w r ms =
     (case MarshalWithURLs api (Result obj) info of
        Inl e \<Rightarrow> (w, Some e)
      | Inr data \<Rightarrow>
          (let doc0 = \<lparr> members = data, doc_links = None, doc_meta = None \<rparr>;
               meta = Metadata obj;
               doc = (if length meta > 0 then doc0\<lparr> doc_meta := Some meta \<rparr> else doc0)
           in marshalResponse lib doc w status r ms))"

definition respondWithPagination ::
  "'v jsonapi \<Rightarrow> httplib \<Rightarrow> 'v response \<Rightarrow> information \<Rightarrow> int \<Rightarrow> (string \<rightharpoonup> link)
    \<Rightarrow> event list \<Rightarrow> request \<Rightarrow> (string \<times> ContentMarshaler) list \<Rightarrow> event list \<times> error option"
where
  "respondWithPagination api lib obj info status links w r ms =
     (case MarshalWithURLs api (Result obj) info of
        Inl e \<Rightarrow> (w, Some e)
      | Inr data \<Rightarrow>
          (let doc0 = \<lparr> members = data, doc_links = Some links, doc_meta = None \<rparr>;
               meta = Metadata obj;
               doc = (if length meta > 0 then doc0\<lparr> doc_meta := Some meta \<rparr> else doc0)
           in marshalResponse lib doc w status r ms))"

definition Itoa :: "int \<Rightarrow> string" where
  "Itoa i = (if i < 0 then CHR ''-'' # decimal (nat (- i)) else decimal (nat i))"

section \<open>The verbs\<close>

definition handleIndex ::
  "'v jsonapi \<Rightarrow> httplib \<Rightarrow> ('v, 's) resource \<Rightarrow> event list \<Rightarrow> request \<Rightarrow> information \<Rightarrow> 's
    \<Rightarrow> ('v, 's) outcome"
where
  "handleIndex api lib res w r info s =
     (let pagination = newPaginationQueryParams r in
      if isValid pagination then
        (case PaginatedFindAll (source res) of
           None \<Rightarrow>
             fail (HTTPError None ''Resource does not implement the PaginatedFindAll interface'' 404)
               w s []
         | Some paginatedFindAll \<Rightarrow>
             (case paginatedFindAll (buildRequest r) s of
                (Inl e, s1) \<Rightarrow> fail e w s1 [Call_PaginatedFindAll]
              | (Inr (count, resp), s1) \<Rightarrow>
                  (case getLinks pagination r count info of
                     (paginationLinks, Some e) \<Rightarrow> fail e w s1 [Call_PaginatedFindAll]
                   | (paginationLinks, None) \<Rightarrow>
                       finish (respondWithPagination api lib resp info 200 paginationLinks w r
                                 (marshalers res))
                         s1 [Call_PaginatedFindAll])))
      else
        (case FindAll (source res) of
           None \<Rightarrow>
             fail (HTTPError None ''Resource does not implement the FindAll interface'' 404) w s []
         | Some findAll \<Rightarrow>
             (case findAll (buildRequest r) s of
                (Inl e, s1) \<Rightarrow> fail e w s1 [Call_FindAll]
              | (Inr resp, s1) \<Rightarrow>
                  finish (respondWith api lib resp info 200 w r (marshalers res)) s1 [Call_FindAll])))"

definition handleCreate ::
  "'v jsonapi \<Rightarrow> httplib \<Rightarrow> ('v, 's) resource \<Rightarrow> event list \<Rightarrow> request \<Rightarrow> string \<Rightarrow> information
    \<Rightarrow> 's \<Rightarrow> ('v, 's) outcome"
where
  "handleCreate api lib res w r pfx info s =
     (case unmarshalRequest lib r (marshalers res) of
        Inl e \<Rightarrow> fail e w s []
      | Inr ctx \<Rightarrow>
          (case UnmarshalInto api ctx [] of
             Inl e \<Rightarrow> fail e w s []
           | Inr newObjs \<Rightarrow>
               (case newObjs of
                  [newObj] \<Rightarrow>
                    (case Create (source res) newObj (buildRequest r) s of
                       (Inl e, s1) \<Rightarrow> fail e w s1 [Call_Create newObj]
                     | (Inr resp, s1) \<Rightarrow>
                         (case (case Result resp of None \<Rightarrow> None | Some v \<Rightarrow> GetID api v) of
                            None \<Rightarrow>
                              fail (Error (''Expected one newly created object by resource '' @ name res))
                                w s1 [Call_Create newObj]
                          | Some ident \<Rightarrow>
                              (let w1 = w @ [SetHeader ''Location'' (pfx @ name res @ ''/'' @ ident)] in
                               if StatusCode resp = 201 then
                                 finish (respondWith api lib resp info 201 w1 r (marshalers res))
                                   s1 [Call_Create newObj]
                               else if StatusCode resp = 204 then
                                 finish (w1 @ [WriteHeader (StatusCode resp)], None)
                                   s1 [Call_Create newObj]
                               else if StatusCode resp = 202 then
                                 finish (w1 @ [WriteHeader (StatusCode resp)], None)
                                   s1 [Call_Create newObj]
                               else
                                 fail (Error (''invalid status code '' @ Itoa (StatusCode resp)
                                         @ '' from resource '' @ name res @ '' for method Create''))
                                   w1 s1 [Call_Create newObj])))
                | _ \<Rightarrow> fail (Error ''expected one object in POST'') w s [])))"








section \<open>Marshalling relationships that share a target type\<close>

record ReferenceID = Reference +
  ID :: string

text \<open>The domain object of the test and its two reference methods, as the test declares them.\<close>

record Node =
  Node_ID :: string
  Content :: string
  MotherID :: string
  ChildIDs :: "string list"
  AbandonedChildIDs :: "string list"

definition Node_GetID :: "Node \<Rightarrow> string" where
  "Node_GetID n = Node_ID n"

definition GetReferences :: "Node \<Rightarrow> Reference list" where
  "GetReferences n =
     [\<lparr> Type = ''nodes'', Name = ''mother-node'' \<rparr>,
      \<lparr> Type = ''nodes'', Name = ''child-nodes'' \<rparr>,
      \<lparr> Type = ''nodes'', Name = ''abandoned-child-nodes'' \<rparr>]"

definition GetReferencedIDs :: "Node \<Rightarrow> ReferenceID list" where
  "GetReferencedIDs n =
     (let result0 = [];
          result1 = (if MotherID n \<noteq> []
                     then result0 @ [\<lparr> Type = ''nodes'', Name = ''mother-node'', ID = MotherID n \<rparr>]
                     else result0);
          result2 = result1 @ map (\<lambda>referenceID.
                        \<lparr> Type = ''nodes'', Name = ''child-nodes'', ID = referenceID \<rparr>) (ChildIDs n);
          result3 = result2 @ map (\<lambda>referenceID.
                        \<lparr> Type = ''nodes'', Name = ''abandoned-child-nodes'', ID = referenceID \<rparr>)
                        (AbandonedChildIDs n)
      in result3)"

text \<open>
  A linkage is the pair of a type and an id.  The data of a relationship entry is one
  linkage object (absent when nothing is referenced) or an ordered sequence of them.
\<close>

record linkage =
  linkage_type :: string
  linkage_id :: string

datatype relationshipData = Single "linkage option" | Sequence "linkage list"

definition linkageOf :: "ReferenceID \<Rightarrow> linkage" where
  "linkageOf i = \<lparr> linkage_type = Type i, linkage_id = ID i \<rparr>"

text \<open>
  Modelled from the spec: \<open>jsonapi.Marshal\<close> (package jsonapi's marshaller is not among the
  sources; only its test is).  The spec's words for the relationships of one object: for
  each declared Reference, collect all ReferenceIDs whose name matches; emit a single
  linkage object for to-one, an ordered sequence (preserving source order) for to-many;
  grouping keys on the relationship name, never on the target type.  Which names are
  to-many is the declaration's cardinality, a parameter here.  The spec does not say what a
  to-one relationship with several referenced ids emits; the model takes the first.
\<close>

definition marshalRelationships ::
  "(string \<Rightarrow> bool) \<Rightarrow> Reference list \<Rightarrow> ReferenceID list \<Rightarrow> (string \<times> relationshipData) list"
where
  "marshalRelationships toMany references referencedIDs =
     map (\<lambda>reference.
            (let matching = filter (\<lambda>i. Name i = Name reference) referencedIDs in
             (Name reference,
              if toMany (Name reference) then Sequence (map linkageOf matching)
              else Single (case matching of [] \<Rightarrow> None | i # rest \<Rightarrow> Some (linkageOf i)))))
         references"


section \<open>Concrete inputs\<close>

text \<open>A request for \<open>/posts\<close> with no query, header or body, and a server without base URL.\<close>

definition example_request :: request where
  "example_request =
     \<lparr> URL_Path = ''/posts'', URL_Query = Map.empty, Header = Map.empty, Body = Inr [] \<rparr>"

definition example_info :: information where
  "example_info = \<lparr> prefix = [], baseURL = [] \<rparr>"

text \<open>
  A codec that decodes every body to the given map, a library whose negotiation always
  falls back to the default offer, and a resource type for the relationship edits: the
  \<open>Node\<close> of the test, given identity and the to-many edits in the way the specification
  describes them (Add appends the ids, Delete removes them by value).
\<close>

definition example_codec :: "jsonmap \<Rightarrow> ContentMarshaler" where
  "example_codec ctx =
     \<lparr> Marshal = (\<lambda>doc. Inr ''document''),
       Unmarshal = (\<lambda>body. Inr ctx),
       MarshalError = (\<lambda>e. ''error'') \<rparr>"

definition example_lib :: "jsonmap \<Rightarrow> httplib" where
  "example_lib ctx =
     \<lparr> JSONContentMarshaler = example_codec ctx,
       NegotiateContentType = (\<lambda>r offers defaultOffer. defaultOffer) \<rparr>"

definition example_edits :: "Node \<Rightarrow> Node EditToManyRelations" where
  "example_edits n =
     \<lparr> AddToManyIDs = (\<lambda>rel ids.
         if rel = ''child-nodes'' then n\<lparr> ChildIDs := ChildIDs n @ ids \<rparr>
         else if rel = ''abandoned-child-nodes''
           then n\<lparr> AbandonedChildIDs := AbandonedChildIDs n @ ids \<rparr>
         else n),
       DeleteToManyIDs = (\<lambda>rel ids.
         if rel = ''child-nodes'' then n\<lparr> ChildIDs := filter (\<lambda>i. i \<notin> set ids) (ChildIDs n) \<rparr>
         else if rel = ''abandoned-child-nodes''
           then n\<lparr> AbandonedChildIDs := filter (\<lambda>i. i \<notin> set ids) (AbandonedChildIDs n) \<rparr>
         else n) \<rparr>"

definition example_api :: "Node jsonapi" where
  "example_api =
     \<lparr> GetID = (\<lambda>n. Some (Node_GetID n)),
       assignable = (\<lambda>n. True),
       MarshalWithURLs = (\<lambda>v info. Inr []),
       UnmarshalInto = (\<lambda>ctx objs. Inr (case objs of
           [] \<Rightarrow> [\<lparr> Node_ID = ''new'', Content = [], MotherID = [], ChildIDs = [],
                    AbandonedChildIDs = [] \<rparr>]
         | stored # rest \<Rightarrow> objs)),
       UnmarshalRelationshipsData = (\<lambda>n rel data. Inr n),
       EditToMany = (\<lambda>n. Some (example_edits n)) \<rparr>"

definition theNode :: Node where
  "theNode =
     \<lparr> Node_ID = ''super'', Content = ''I am the Super Node'', MotherID = ''1337'',
       ChildIDs = [''666'', ''42''], AbandonedChildIDs = [''2'', ''1''] \<rparr>"

text \<open>
  A backend that stores one node.  \<open>FindOne\<close> finds it under its id; \<open>Create\<close> and
  \<open>Update\<close> store what they are given and answer with the given status, \<open>Create\<close> with
  the object and \<open>Update\<close> without one; it lists nothing.
\<close>

definition example_source :: "int \<Rightarrow> (Node, Node) CRUD" where
  "example_source status =
     \<lparr> FindOne = (\<lambda>ident req stored.
         if ident = Node_ID stored
         then (Inr \<lparr> Meta = [], Data = Some stored, Status = 200 \<rparr>, stored)
         else (Inl (HTTPError None ''not found'' 404), stored)),
       Create = (\<lambda>obj req stored. (Inr \<lparr> Meta = [], Data = Some obj, Status = status \<rparr>, obj)),
       Delete = (\<lambda>ident req stored. (Inr \<lparr> Meta = [], Data = None, Status = status \<rparr>, stored)),
       Update = (\<lambda>obj req stored. (Inr \<lparr> Meta = [], Data = None, Status = status \<rparr>, obj)),
       FindAll = None,
       PaginatedFindAll = None \<rparr>"

definition example_resource :: "int \<Rightarrow> (Node, Node) resource" where
  "example_resource status =
     \<lparr> source = example_source status, name = ''nodes'', marshalers = [] \<rparr>"

definition paged_request :: request where
  "paged_request =
     \<lparr> URL_Path = ''/nodes'',
       URL_Query = [''page[number]'' \<mapsto> (''2'', []), ''page[size]'' \<mapsto> (''10'', [])],
       Header = Map.empty, Body = Inr [] \<rparr>"

definition mixed_request :: request where
  "mixed_request =
     \<lparr> URL_Path = ''/nodes'',
       URL_Query = [''page[number]'' \<mapsto> (''2'', []), ''page[limit]'' \<mapsto> (''10'', []),
                    ''filter'' \<mapsto> (''a,b,,c'', [''ignored''])],
       Header = Map.empty, Body = Inr [] \<rparr>"

text \<open>The same backend with both listing capabilities, reporting 25 entries.\<close>

definition listing_resource :: "(Node, Node) resource" where
  "listing_resource =
     \<lparr> source = (example_source 200)
         \<lparr> FindAll := Some (\<lambda>req stored.
               (Inr \<lparr> Meta = [], Data = Some stored, Status = 200 \<rparr>, stored)),
           PaginatedFindAll := Some (\<lambda>req stored.
               (Inr (25, \<lparr> Meta = [], Data = Some stored, Status = 200 \<rparr>), stored)) \<rparr>,
       name = ''nodes'', marshalers = [] \<rparr>"

text \<open>Requests that carry a \<open>Content-Type\<close> header only, and an \<open>Accept\<close> header as well.\<close>

definition xml_request :: request where
  "xml_request =
     \<lparr> URL_Path = ''/nodes'', URL_Query = Map.empty,
       Header = [''Content-Type'' \<mapsto> (''application/xml'', [])], Body = Inr ''<node/>'' \<rparr>"

definition accept_request :: request where
  "accept_request =
     \<lparr> URL_Path = ''/nodes'', URL_Query = Map.empty,
       Header = [''Content-Type'' \<mapsto> (''application/xml'', []), ''Accept'' \<mapsto> (''text/html'', [])],
       Body = Inr ''<node/>'' \<rparr>"

definition xml_registry :: "(string \<times> ContentMarshaler) list" where
  "xml_registry = [(''application/xml'', example_codec [(''data'', JNull)])]"

section \<open>Well-formed linkage entries\<close>







text \<open>A backend whose \<open>Update\<close> fails.\<close>

definition failing_resource :: "(Node, Node) resource" where
  "failing_resource =
     \<lparr> source = (example_source 200)
         \<lparr> Update := (\<lambda>obj req stored. (Inl (HTTPError None ''storage is down'' 503), stored)) \<rparr>,
       name = ''nodes'', marshalers = [] \<rparr>"

text \<open>A backend whose \<open>Create\<close> stores the object and answers 204 without an object.\<close>

definition silent_resource :: "(Node, Node) resource" where
  "silent_resource =
     \<lparr> source = (example_source 204)
         \<lparr> Create := (\<lambda>obj req stored. (Inr \<lparr> Meta = [], Data = None, Status = 204 \<rparr>, obj)) \<rparr>,
       name = ''nodes'', marshalers = [] \<rparr>"

text \<open>A backend whose \<open>Create\<close> answers 418 without an object.\<close>

definition teapot_resource :: "(Node, Node) resource" where
  "teapot_resource =
     \<lparr> source = (example_source 418)
         \<lparr> Create := (\<lambda>obj req stored. (Inr \<lparr> Meta = [], Data = None, Status = 418 \<rparr>, obj)) \<rparr>,
       name = ''nodes'', marshalers = [] \<rparr>"

definition newNode :: Node where
  "newNode =
     \<lparr> Node_ID = ''new'', Content = [], MotherID = [], ChildIDs = [], AbandonedChildIDs = [] \<rparr>"



text \<open>The cardinalities of the node's relationships: the two child relationships are to-many.\<close>

definition nodeToMany :: "string \<Rightarrow> bool" where
  "nodeToMany relName = (relName = ''child-nodes'' \<or> relName = ''abandoned-child-nodes'')"

section \<open>Properties\<close>

subsection \<open>Decimal numerals and 64-bit arithmetic\<close>

lemma digits_value_mono: "acc \<le> digits_value acc s"
  unfolding digits_value_def
proof (induction s arbitrary: acc)
  case Nil then show ?case by simp
next
  case (Cons c cs)
  have "acc \<le> acc * 10 + digit_value c" by simp
  also have "\<dots> \<le> foldl (\<lambda>a c. a * 10 + digit_value c) (acc * 10 + digit_value c) cs" by (rule Cons.IH)
  finally show ?case by simp
qed

lemma parse_digits_value:
  "\<forall>c \<in> set s. is_digit c \<Longrightarrow> digits_value acc s < 2 ^ 64 \<Longrightarrow> parse_digits acc s = Inr (digits_value acc s)"
proof (induction s arbitrary: acc)
  case Nil then show ?case by (simp add: digits_value_def)
next
  case (Cons c cs)
  have v: "digits_value acc (c # cs) = digits_value (acc * 10 + digit_value c) cs"
    by (simp add: digits_value_def)
  have "acc * 10 + digit_value c \<le> digits_value (acc * 10 + digit_value c) cs"
    by (rule digits_value_mono)
  with Cons.prems v have small: "acc * 10 + digit_value c < 2 ^ 64" by simp
  from Cons.prems v have "parse_digits (acc * 10 + digit_value c) cs = Inr (digits_value (acc * 10 + digit_value c) cs)"
    by (intro Cons.IH) auto
  with small Cons.prems v show ?case by simp
qed

lemma is_digit_digit_char: "d < 10 \<Longrightarrow> is_digit (digit_char d)"
  by (simp add: is_digit_def digit_char_def)

lemma digit_value_digit_char: "d < 10 \<Longrightarrow> digit_value (digit_char d) = d"
  by (simp add: digit_value_def digit_char_def)

lemma decimal_digits: "c \<in> set (decimal n) \<Longrightarrow> is_digit c"
proof (induction n arbitrary: c rule: decimal.induct)
  case (1 n)
  show ?case
  proof (cases "n < 10")
    case True
    with "1.prems" show ?thesis by (simp add: decimal.simps [of n] is_digit_digit_char)
  next
    case False
    with "1.prems" "1.IH" show ?thesis by (auto simp: decimal.simps [of n] is_digit_digit_char)
  qed
qed

lemma digits_value_decimal: "digits_value 0 (decimal n) = n"
proof (induction n rule: decimal.induct)
  case (1 n)
  show ?case
  proof (cases "n < 10")
    case True
    then show ?thesis by (simp add: decimal.simps [of n] digits_value_def digit_value_digit_char)
  next
    case False
    with "1.IH" have "digits_value 0 (decimal (n div 10)) = n div 10" by simp
    with False show ?thesis
      by (subst decimal.simps) (simp add: digits_value_def digit_value_digit_char)
  qed
qed

lemma decimal_not_Nil: "decimal n \<noteq> []"
  by (subst decimal.simps) simp

lemma ParseUint_decimal: "n < 2 ^ 64 \<Longrightarrow> ParseUint (decimal n) = Inr (word_of_nat n)"
  using parse_digits_value [of "decimal n" 0]
  by (simp add: ParseUint_def decimal_not_Nil decimal_digits digits_value_decimal)

lemma decimal_inj: "decimal m = decimal n \<Longrightarrow> m = n"
  by (metis digits_value_decimal)

lemma digit_chars:
  "digit_char 0 = CHR ''0''" "digit_char 1 = CHR ''1''" "digit_char 2 = CHR ''2''"
  "digit_char 3 = CHR ''3''" "digit_char 4 = CHR ''4''" "digit_char 5 = CHR ''5''"
  "digit_char 6 = CHR ''6''" "digit_char 7 = CHR ''7''" "digit_char 8 = CHR ''8''"
  "digit_char 9 = CHR ''9''" "digit_char (Suc 0) = CHR ''1''"
  by code_simp+

lemma decimal_numeral:
  "decimal (numeral k) =
     (if (numeral k :: nat) < 10 then [digit_char (numeral k)]
      else decimal (numeral k div 10) @ [digit_char (numeral k mod 10)])"
  by (rule decimal.simps)

lemma decimal_0: "decimal 0 = ''0''"
  by (simp add: decimal.simps [of 0] digit_chars)

lemma decimal_1: "decimal 1 = ''1''"
  by (simp add: decimal.simps [of "Suc 0"] digit_chars)

lemma decimal_Suc_0: "decimal (Suc 0) = ''1''"
  by (simp add: decimal.simps [of "Suc 0"] digit_chars)

lemmas decimal_eval = decimal_numeral decimal_0 decimal_1 decimal_Suc_0 digit_chars

lemma decimal_eq_1: "decimal n = ''1'' \<longleftrightarrow> n = 1"
  using decimal_inj [of n 1] decimal_1 by auto

lemma decimal_eq_0: "decimal n = ''0'' \<longleftrightarrow> n = 0"
  using decimal_inj [of n 0] decimal_0 by auto

lemma ceil_div: "0 < s \<Longrightarrow> nat \<lceil>real c / real s\<rceil> = c div s + (if c mod s = 0 then 0 else 1)"
proof -
  assume s: "0 < s"
  have "\<lceil>real c / real s\<rceil> = - ((- int c) div int s)"
    using ceiling_divide_eq_div [of "int c" "int s"] by simp
  also have "\<dots> = int c div int s + (if int c mod int s = 0 then 0 else 1)"
    using s by (simp add: zdiv_zminus1_eq_if)
  also have "\<dots> = int (c div s + (if c mod s = 0 then 0 else 1))"
  proof -
    have m: "int c mod int s = int (c mod s)" by (simp add: zmod_int)
    have d: "int c div int s = int (c div s)" by (simp add: zdiv_int)
    show ?thesis unfolding m d by simp
  qed
  finally show ?thesis by simp
qed


lemma unat_u64: "n < 2 ^ 64 \<Longrightarrow> unat (word_of_nat n :: uint64) = n"
  by (simp add: unat_of_nat)

lemma u64_eq_iff: "m < 2 ^ 64 \<Longrightarrow> n < 2 ^ 64 \<Longrightarrow> (word_of_nat m :: uint64) = word_of_nat n \<longleftrightarrow> m = n"
  by (metis unat_u64)

lemma u64_less_iff: "m < 2 ^ 64 \<Longrightarrow> n < 2 ^ 64 \<Longrightarrow> (word_of_nat m :: uint64) < word_of_nat n \<longleftrightarrow> m < n"
  by (simp add: word_less_nat_alt unat_u64)

lemma u64_div: "m < 2 ^ 64 \<Longrightarrow> n < 2 ^ 64 \<Longrightarrow> (word_of_nat m :: uint64) div word_of_nat n = word_of_nat (m div n)"
  by (simp add: word_arith_nat_div unat_u64)

lemma u64_mod: "m < 2 ^ 64 \<Longrightarrow> n < 2 ^ 64 \<Longrightarrow> (word_of_nat m :: uint64) mod word_of_nat n = word_of_nat (m mod n)"
  by (simp add: word_arith_nat_mod unat_u64)

lemma u64_pred: "1 \<le> n \<Longrightarrow> (word_of_nat n :: uint64) - 1 = word_of_nat (n - 1)"
  by simp

lemma u64_diff: "m \<le> n \<Longrightarrow> (word_of_nat n :: uint64) - word_of_nat m = word_of_nat (n - m)"
  by simp

lemma total_bound: "0 < s \<Longrightarrow> c < 2 ^ 64 \<Longrightarrow> c div s + (if c mod s = 0 then 0 else 1) < (2::nat) ^ 64"
proof -
  assume s: "0 < s" and c: "c < 2 ^ 64"
  show ?thesis
  proof (cases "c mod s = 0")
    case True
    have "c div s \<le> c" by simp
    then have "c div s < 2 ^ 64" by (rule le_less_trans) (rule c)
    with True show ?thesis by simp
  next
    case False
    then have "s \<noteq> 1" by auto
    with s have "2 \<le> s" by simp
    then have "c div s \<le> c div 2" by (simp add: div_le_mono2)
    moreover from False have "0 < c" by (cases c) auto
    ultimately have "c div s < c" by linarith
    with c have "c div s + 1 < 2 ^ 64" by linarith
    with False show ?thesis by simp
  qed
qed

lemma fmt_u64: "n < 2 ^ 64 \<Longrightarrow> FormatUint (word_of_nat n) = decimal n"
  by (simp only: FormatUint_def unat_u64)

lemma u64_succ: "(word_of_nat n :: uint64) + 1 = word_of_nat (n + 1)"
  by simp

lemma total_pages_u64:
  assumes "0 < s" "s < 2 ^ 64" "c < 2 ^ 64"
  shows "(if (word_of_nat c :: uint64) mod word_of_nat s \<noteq> 0
          then word_of_nat c div word_of_nat s + 1 else word_of_nat c div word_of_nat s)
      = (word_of_nat (c div s + (if c mod s = 0 then 0 else 1)) :: uint64)"
proof -
  have m: "c mod s < 2 ^ 64" using assms(3) by (rule le_less_trans [OF mod_less_eq_dividend])
  have "(word_of_nat c :: uint64) mod word_of_nat s = word_of_nat (c mod s)"
    using assms by (simp only: u64_mod)
  moreover have "(word_of_nat (c mod s) :: uint64) = 0 \<longleftrightarrow> c mod s = 0"
    using u64_eq_iff [OF m, of 0] by simp
  moreover have "(word_of_nat c :: uint64) div word_of_nat s = word_of_nat (c div s)"
    using assms by (simp only: u64_div)
  ultimately show ?thesis by (simp only: u64_succ) simp
qed

subsection \<open>Pagination parameters\<close>

lemma isValid_iff:
  "isValid p \<longleftrightarrow>
     (number p \<noteq> [] \<and> size' p \<noteq> [] \<and> offset p = [] \<and> limit p = []) \<or>
     (number p = [] \<and> size' p = [] \<and> offset p \<noteq> [] \<and> limit p \<noteq> [])"
  by (auto simp: isValid_def)

subsection \<open>Strategy A: page number and page size\<close>

text \<open>
  Claim C2, amended.  Let \<open>page[number]\<close> and \<open>page[size]\<close> be the decimal numerals of
  \<open>n \<ge> 1\<close> and \<open>s \<ge> 1\<close> (both within 64 bits, and \<open>n + 1\<close> too) and let the backend report
  the count \<open>c\<close>.  Then \<open>getLinks\<close> returns without error, the total number of pages is
  \<open>\<lceil>c / s\<rceil>\<close>, and the links are exactly these: \<open>first\<close> (page 1) and \<open>prev\<close> (page
  \<open>n - 1\<close>) when \<open>n \<noteq> 1\<close>, \<open>next\<close> (page \<open>n + 1\<close>) and \<open>last\<close> (page \<open>\<lceil>c / s\<rceil>\<close>) when
  \<open>n \<noteq> \<lceil>c / s\<rceil>\<close>; each link is the request with only \<open>page[number]\<close> rewritten.
\<close>

theorem strategyA:
  assumes n: "1 \<le> n" "n + 1 < 2 ^ 64" and s: "1 \<le> s" "s < 2 ^ 64" and c: "c < 2 ^ 64"
    and pn: "number p = decimal n" and ps: "size' p = decimal s"
  shows "getLinks p r (word_of_nat c) info =
    ((\<lambda>k. if k = ''first'' \<and> n \<noteq> 1 then Some (pageLink r info ''page[number]'' ''1'')
          else if k = ''prev'' \<and> n \<noteq> 1 then Some (pageLink r info ''page[number]'' (decimal (n - 1)))
          else if k = ''next'' \<and> n \<noteq> nat \<lceil>real c / real s\<rceil>
            then Some (pageLink r info ''page[number]'' (decimal (n + 1)))
          else if k = ''last'' \<and> n \<noteq> nat \<lceil>real c / real s\<rceil>
            then Some (pageLink r info ''page[number]'' (decimal (nat \<lceil>real c / real s\<rceil>)))
          else None), None)"
proof -
  define t where "t = c div s + (if c mod s = 0 then 0 else 1)"
  have t: "nat \<lceil>real c / real s\<rceil> = t" using s by (simp add: ceil_div t_def)
  have tb: "t < 2 ^ 64" unfolding t_def using s c by (intro total_bound) auto
  have nb: "n < 2 ^ 64" "n - 1 < 2 ^ 64" using n by auto
  have P1: "ParseUint (number p) = Inr (word_of_nat n)" using nb by (simp only: pn ParseUint_decimal)
  have P2: "ParseUint (size' p) = Inr (word_of_nat s)" using s by (simp only: ps ParseUint_decimal)
  have s0: "(word_of_nat s :: uint64) \<noteq> 0" using u64_eq_iff [of s 0] s by simp
  have tp: "(if (word_of_nat c :: uint64) mod word_of_nat s \<noteq> 0 then word_of_nat c div word_of_nat s + 1 else word_of_nat c div word_of_nat s)
      = (word_of_nat t :: uint64)"
    unfolding t_def using s c by (intro total_pages_u64) auto
  have ne: "(word_of_nat n :: uint64) \<noteq> word_of_nat t \<longleftrightarrow> n \<noteq> t"
    using u64_eq_iff [OF nb(1) tb] by simp
  have F1: "FormatUint (word_of_nat n - 1) = decimal (n - 1)"
    using n(1) nb(2) by (simp only: u64_pred fmt_u64)
  have F2: "FormatUint (word_of_nat n + 1) = decimal (n + 1)"
    using n(2) by (simp only: u64_succ fmt_u64)
  have F3: "FormatUint (word_of_nat t) = decimal t" using tb by (rule fmt_u64)
  have ne1: "number p \<noteq> []" "number p \<noteq> ''1'' \<longleftrightarrow> n \<noteq> 1"
    by (simp_all only: pn decimal_not_Nil decimal_eq_1 not_False_eq_True)
  show ?thesis
    unfolding getLinks_def t
    apply (simp only: Let_def P1 P2 sum.case s0 if_False tp ne F1 F2 F3 ne1 if_True GetBaseURL_def)
    apply (auto simp: pageLink_def Set_value_def fun_eq_iff)
    done
qed

text \<open>
  The example of the specification: count 25, size 10, number 2 gives \<open>first\<close> = 1,
  \<open>prev\<close> = 1, \<open>next\<close> = 3 and \<open>last\<close> = 3.
\<close>

theorem strategyA_witness:
  "fst (getLinks \<lparr> number = ''2'', size' = ''10'', offset = [], limit = [] \<rparr> example_request 25 example_info) ''first''
     = Some (pageLink example_request example_info ''page[number]'' ''1'')
   \<and> fst (getLinks \<lparr> number = ''2'', size' = ''10'', offset = [], limit = [] \<rparr> example_request 25 example_info) ''prev''
     = Some (pageLink example_request example_info ''page[number]'' ''1'')
   \<and> fst (getLinks \<lparr> number = ''2'', size' = ''10'', offset = [], limit = [] \<rparr> example_request 25 example_info) ''next''
     = Some (pageLink example_request example_info ''page[number]'' ''3'')
   \<and> fst (getLinks \<lparr> number = ''2'', size' = ''10'', offset = [], limit = [] \<rparr> example_request 25 example_info) ''last''
     = Some (pageLink example_request example_info ''page[number]'' ''3'')"
proof -
  have c: "nat \<lceil>real 25 / real 10\<rceil> = 3" by simp
  show ?thesis
    using strategyA [of 2 10 25 "\<lparr> number = ''2'', size' = ''10'', offset = [], limit = [] \<rparr>" example_request example_info]
    by (simp add: decimal_eval c)
qed

text \<open>
  Outside that range the claim fails as stated: for \<open>page[number]=0\<close> the planner emits a
  \<open>prev\<close> link, and its page is \<open>0 - 1\<close> in 64-bit unsigned arithmetic, which is
  18446744073709551615 and not \<open>n - 1\<close>.
\<close>

theorem strategyA_counterexample:
  "fst (getLinks \<lparr> number = ''0'', size' = ''10'', offset = [], limit = [] \<rparr> example_request 25 example_info) ''prev''
     = Some (pageLink example_request example_info ''page[number]'' ''18446744073709551615'')
   \<and> (18446744073709551615 :: int) \<noteq> 0 - 1"
proof -
  have p0: "ParseUint ''0'' = Inr 0" using ParseUint_decimal [of 0] by (simp add: decimal_eval)
  have p10: "ParseUint ''10'' = Inr 10" using ParseUint_decimal [of 10] by (simp add: decimal_eval)
  have m: "(- 1 :: uint64) = word_of_nat 18446744073709551615" by simp
  have u: "unat (- 1 :: uint64) = 18446744073709551615"
    unfolding m by (rule unat_u64) simp
  have f: "FormatUint (- 1) = ''18446744073709551615''"
    by (simp add: FormatUint_def u decimal_eval)
  have ne: "''0'' \<noteq> ''1''" "''0'' \<noteq> []" by simp_all
  have z: "(10 :: uint64) \<noteq> 0" by simp
  show ?thesis
    unfolding getLinks_def
    apply (simp only: paginationQueryParams.simps Let_def p0 p10 sum.case ne if_True z if_False
       diff_0 f split_conv fst_conv)
    apply (simp add: pageLink_def Set_value_def GetBaseURL_def example_info_def)
    done
qed

subsection \<open>Strategy B: page offset and page limit\<close>

lemma u64_add: "(word_of_nat m :: uint64) + word_of_nat n = word_of_nat (m + n)"
  by simp

text \<open>
  Claim C3, amended.  Let \<open>page[offset]\<close> and \<open>page[limit]\<close> be the decimal numerals of
  \<open>o\<close> and \<open>l\<close> with \<open>o + l\<close> within 64 bits, let \<open>page[number]\<close> be empty (strategy B) and
  let the backend report the count \<open>c\<close>.  Then \<open>getLinks\<close> returns without error and the
  links are exactly these: \<open>first\<close> (offset 0) and \<open>prev\<close> (offset \<open>max(0, o - l)\<close>) when
  \<open>o \<noteq> 0\<close>, \<open>next\<close> (offset \<open>o + l\<close>) and \<open>last\<close> (offset \<open>c - l\<close>) when \<open>o + l < c\<close>; each
  link is the request with only \<open>page[offset]\<close> rewritten.
\<close>

theorem strategyB:
  assumes ol: "ofs + lmt < 2 ^ 64" and c: "c < 2 ^ 64"
    and pn: "number p = []" and po: "offset p = decimal ofs" and pl: "limit p = decimal lmt"
  shows "getLinks p r (word_of_nat c) info =
    ((\<lambda>k. if k = ''first'' \<and> ofs \<noteq> 0 then Some (pageLink r info ''page[offset]'' ''0'')
          else if k = ''prev'' \<and> ofs \<noteq> 0
            then Some (pageLink r info ''page[offset]'' (decimal (nat (max 0 (int ofs - int lmt)))))
          else if k = ''next'' \<and> ofs + lmt < c
            then Some (pageLink r info ''page[offset]'' (decimal (ofs + lmt)))
          else if k = ''last'' \<and> ofs + lmt < c
            then Some (pageLink r info ''page[offset]'' (decimal (c - lmt)))
          else None), None)"
proof -
  have ob: "ofs < 2 ^ 64" and lb: "lmt < 2 ^ 64" using ol by auto
  have P1: "ParseUint (offset p) = Inr (word_of_nat ofs)" using ob by (simp only: po ParseUint_decimal)
  have P2: "ParseUint (limit p) = Inr (word_of_nat lmt)" using lb by (simp only: pl ParseUint_decimal)
  have ne0: "offset p \<noteq> ''0'' \<longleftrightarrow> ofs \<noteq> 0" by (simp only: po decimal_eq_0)
  have gt: "(word_of_nat lmt :: uint64) > word_of_nat ofs \<longleftrightarrow> lmt > ofs"
    using ob lb by (simp only: u64_less_iff)
  have lt: "(word_of_nat ofs :: uint64) + word_of_nat lmt < word_of_nat c \<longleftrightarrow> ofs + lmt < c"
    using ol c by (simp only: u64_add u64_less_iff)
  have F0: "FormatUint 0 = decimal 0" using fmt_u64 [of 0] by simp
  have F1: "\<not> lmt > ofs \<Longrightarrow> FormatUint (word_of_nat ofs - word_of_nat lmt) = decimal (ofs - lmt)"
  proof -
    assume "\<not> lmt > ofs"
    then have le: "lmt \<le> ofs" by simp
    have "ofs - lmt < 2 ^ 64" using ob by simp
    with le show ?thesis by (simp only: u64_diff fmt_u64)
  qed
  have F2: "FormatUint (word_of_nat ofs + word_of_nat lmt) = decimal (ofs + lmt)"
    using ol by (simp only: u64_add fmt_u64)
  have F3: "ofs + lmt < c \<Longrightarrow> FormatUint (word_of_nat c - word_of_nat lmt) = decimal (c - lmt)"
  proof -
    assume a: "ofs + lmt < c"
    then have le: "lmt \<le> c" by simp
    have "c - lmt < 2 ^ 64" using c by simp
    with le show ?thesis by (simp only: u64_diff fmt_u64)
  qed
  have F4: "FormatUint (word_of_nat lmt) = decimal lmt" using lb by (rule fmt_u64)
  have mx: "nat (max 0 (int ofs - int lmt)) = (if lmt > ofs then 0 else ofs - lmt)" by auto
  show ?thesis
    unfolding getLinks_def mx
    apply (simp only: Let_def pn P1 P2 sum.case ne0 gt lt if_False if_True GetBaseURL_def simp_thms)
    apply (auto simp: F0 F1 F2 F3 F4 pageLink_def Set_value_def fun_eq_iff decimal_0)
    done
qed

text \<open>
  The example of the specification: count 25, limit 10, offset 10 gives \<open>first\<close> offset 0,
  \<open>prev\<close> offset 0, \<open>next\<close> offset 20 and \<open>last\<close> offset 15.
\<close>

theorem strategyB_witness:
  "fst (getLinks \<lparr> number = [], size' = [], offset = ''10'', limit = ''10'' \<rparr>
          example_request 25 example_info) ''first''
     = Some (pageLink example_request example_info ''page[offset]'' ''0'')
   \<and> fst (getLinks \<lparr> number = [], size' = [], offset = ''10'', limit = ''10'' \<rparr>
          example_request 25 example_info) ''prev''
     = Some (pageLink example_request example_info ''page[offset]'' ''0'')
   \<and> fst (getLinks \<lparr> number = [], size' = [], offset = ''10'', limit = ''10'' \<rparr>
          example_request 25 example_info) ''next''
     = Some (pageLink example_request example_info ''page[offset]'' ''20'')
   \<and> fst (getLinks \<lparr> number = [], size' = [], offset = ''10'', limit = ''10'' \<rparr>
          example_request 25 example_info) ''last''
     = Some (pageLink example_request example_info ''page[offset]'' ''15'')"
  using strategyB [of 10 10 25 "\<lparr> number = [], size' = [], offset = ''10'', limit = ''10'' \<rparr>"
      example_request example_info]
  by (simp add: decimal_eval)

text \<open>
  Where \<open>o + l\<close> leaves 64 bits the claim fails as stated: the sum wraps, so for offset
  18446744073709551615 and limit 1 over 25 entries a \<open>next\<close> link is emitted (with offset 0)
  although \<open>o + l < c\<close> is false.
\<close>

theorem strategyB_counterexample:
  "fst (getLinks \<lparr> number = [], size' = [], offset = ''18446744073709551615'', limit = ''1'' \<rparr>
          example_request 25 example_info) ''next''
     = Some (pageLink example_request example_info ''page[offset]'' ''0'')
   \<and> \<not> ((18446744073709551615 :: nat) + 1 < 25)"
proof -
  have p1: "ParseUint ''18446744073709551615'' = Inr (- 1)"
    using ParseUint_decimal [of 18446744073709551615] by (simp add: decimal_eval)
  have p2: "ParseUint ''1'' = Inr 1" using ParseUint_decimal [of 1] by (simp add: decimal_eval)
  have f: "FormatUint 0 = ''0''" by (simp add: FormatUint_def decimal_eval)
  have ne: "''18446744073709551615'' \<noteq> ''0''" by simp
  have w: "(- 1 :: uint64) + 1 < 25" by simp
  show ?thesis
    unfolding getLinks_def
    apply (simp only: paginationQueryParams.simps Let_def p1 p2 sum.case ne if_True if_False
        simp_thms w split_conv fst_conv)
    apply (simp add: pageLink_def Set_value_def GetBaseURL_def example_info_def f)
    done
qed

subsection \<open>Query parameters handed to the backend\<close>

lemma Split_not_Nil: "Split s sep \<noteq> []"
  by (induction s) (auto split: list.splits)

lemma Join_Cons_Cons: "Join ((c # x) # xs) sep = c # Join (x # xs) sep"
  by (cases xs) simp_all

lemma Join_Nil_Cons: "xs \<noteq> [] \<Longrightarrow> Join ([] # xs) sep = sep # Join xs sep"
  by (cases xs) simp_all

lemma Join_Split: "Join (Split s sep) sep = s"
proof (induction s)
  case Nil
  show ?case by simp
next
  case (Cons c cs)
  show ?case
  proof (cases "c = sep")
    case True
    with Cons show ?thesis by (simp add: Join_Nil_Cons Split_not_Nil)
  next
    case False
    obtain x xs where sp: "Split cs sep = x # xs"
      using Split_not_Nil [of cs sep] by (cases "Split cs sep") auto
    with Cons False show ?thesis by (simp add: Join_Cons_Cons)
  qed
qed

lemma Split_no_sep: "x \<in> set (Split s sep) \<Longrightarrow> sep \<notin> set x"
  by (induction s arbitrary: x) (auto split: if_splits list.splits)

text \<open>
  Claim C10.  \<open>buildRequest\<close> hands every key of the query to the backend (the four
  pagination keys included) with the list of strings obtained by splitting the key's
  (first) value on commas: joining the list with commas gives the value back and no
  element holds a comma; a key that is not in the query is not in the backend's
  parameters.  The request itself is passed along, and the pagination parameters are read
  from the four keys \<open>page[number]\<close>, \<open>page[size]\<close>, \<open>page[offset]\<close> and \<open>page[limit]\<close>.
\<close>

theorem buildRequest_passes_query:
  "(URL_Query r key = None \<longrightarrow> QueryParams (buildRequest r) key = None)
   \<and> (\<forall>v more. URL_Query r key = Some (v, more) \<longrightarrow>
         QueryParams (buildRequest r) key = Some (Split v CHR '','')
         \<and> Join (Split v CHR '','') CHR '','' = v
         \<and> (\<forall>x \<in> set (Split v CHR '',''). CHR '','' \<notin> set x))
   \<and> PlainRequest (buildRequest r) = r
   \<and> newPaginationQueryParams r =
        \<lparr> number = Get (URL_Query r) ''page[number]'', size' = Get (URL_Query r) ''page[size]'',
          offset = Get (URL_Query r) ''page[offset]'', limit = Get (URL_Query r) ''page[limit]'' \<rparr>"
  by (simp add: buildRequest_def newPaginationQueryParams_def Let_def Join_Split Split_no_sep)

text \<open>
  A query \<open>page[number]=2&page[limit]=10&filter=a,b,,c\<close>: the filter reaches the backend as
  the four strings \<open>a\<close>, \<open>b\<close>, the empty string and \<open>c\<close>.
\<close>

theorem buildRequest_passes_query_witness:
  "QueryParams (buildRequest mixed_request) ''filter'' = Some [''a'', ''b'', '''', ''c'']
   \<and> QueryParams (buildRequest mixed_request) ''sort'' = None
   \<and> QueryParams (buildRequest mixed_request) ''page[limit]'' = Some [''10'']
   \<and> number (newPaginationQueryParams mixed_request) = ''2''
   \<and> limit (newPaginationQueryParams mixed_request) = ''10''"
  using buildRequest_passes_query [of mixed_request "''filter''"]
    buildRequest_passes_query [of mixed_request "''sort''"]
    buildRequest_passes_query [of mixed_request "''page[limit]''"]
  by (simp add: mixed_request_def Get_def)

subsection \<open>Index: which listing capability a request needs\<close>

lemma statusCode_writeResult_Nil: "statusCode (writeResult [] body status ct) = Some status"
  by (simp add: writeResult_def)

lemma route_HTTPError:
  "err out = Some (HTTPError cause msg status) \<Longrightarrow> writer out = [] \<Longrightarrow>
   statusCode (writer (route lib r ms out)) = Some status"
  by (simp add: route_def handleError_def writeResult_def split: prod.splits)

lemma route_Error:
  "err out = Some (Error msg) \<Longrightarrow> statusCode (writer out) = None \<Longrightarrow>
   statusCode (writer (route lib r ms out)) = Some 500"
proof -
  have app: "\<And>w es. statusCode w = None \<Longrightarrow> statusCode (w @ es) = statusCode es"
  proof -
    fix w :: "event list" and es
    show "statusCode w = None \<Longrightarrow> statusCode (w @ es) = statusCode es"
      by (induction w rule: statusCode.induct) simp_all
  qed
  assume "err out = Some (Error msg)" "statusCode (writer out) = None"
  then show ?thesis
    by (simp add: route_def handleError_def writeResult_def app split: prod.splits)
qed

lemma handleIndex_calls_paginated:
  "isValid (newPaginationQueryParams r) \<Longrightarrow> PaginatedFindAll (source res) = Some f \<Longrightarrow>
   calls (handleIndex api lib res w r info s) = [Call_PaginatedFindAll]"
  by (simp add: handleIndex_def fail_def finish_def Let_def split: prod.splits sum.splits option.splits)

lemma handleIndex_calls_plain:
  "\<not> isValid (newPaginationQueryParams r) \<Longrightarrow> FindAll (source res) = Some f \<Longrightarrow>
   calls (handleIndex api lib res w r info s) = [Call_FindAll]"
  by (simp add: handleIndex_def fail_def finish_def Let_def split: prod.splits sum.splits option.splits)

text \<open>
  Claim C4.  The pagination parameters are valid exactly when number and size are both
  non-empty with offset and limit both empty, or offset and limit are both non-empty with
  number and size both empty.  For an Index request with valid parameters the backend must
  implement \<open>PaginatedFindAll\<close>: without it the handler calls nothing on the backend and
  fails with an HTTP error of status 404, which the route writes as the response status;
  with it the paginated listing is the one backend call.  For every other combination the
  same holds with \<open>FindAll\<close> in its place.
\<close>

theorem handleIndex_capabilities:
  "(isValid p \<longleftrightarrow>
      (number p \<noteq> [] \<and> size' p \<noteq> [] \<and> offset p = [] \<and> limit p = []) \<or>
      (number p = [] \<and> size' p = [] \<and> offset p \<noteq> [] \<and> limit p \<noteq> []))
   \<and> (isValid (newPaginationQueryParams r) \<and> PaginatedFindAll (source res) = None \<longrightarrow>
        err (handleIndex api lib res [] r info s)
          = Some (HTTPError None ''Resource does not implement the PaginatedFindAll interface'' 404)
        \<and> calls (handleIndex api lib res [] r info s) = []
        \<and> statusCode (writer (route lib r (marshalers res) (handleIndex api lib res [] r info s)))
          = Some 404)
   \<and> (isValid (newPaginationQueryParams r) \<and> PaginatedFindAll (source res) \<noteq> None \<longrightarrow>
        calls (handleIndex api lib res [] r info s) = [Call_PaginatedFindAll])
   \<and> (\<not> isValid (newPaginationQueryParams r) \<and> FindAll (source res) = None \<longrightarrow>
        err (handleIndex api lib res [] r info s)
          = Some (HTTPError None ''Resource does not implement the FindAll interface'' 404)
        \<and> calls (handleIndex api lib res [] r info s) = []
        \<and> statusCode (writer (route lib r (marshalers res) (handleIndex api lib res [] r info s)))
          = Some 404)
   \<and> (\<not> isValid (newPaginationQueryParams r) \<and> FindAll (source res) \<noteq> None \<longrightarrow>
        calls (handleIndex api lib res [] r info s) = [Call_FindAll])"
proof (intro conjI impI)
  show "isValid p \<longleftrightarrow>
      (number p \<noteq> [] \<and> size' p \<noteq> [] \<and> offset p = [] \<and> limit p = []) \<or>
      (number p = [] \<and> size' p = [] \<and> offset p \<noteq> [] \<and> limit p \<noteq> [])"
    by (rule isValid_iff)
next
  assume a: "isValid (newPaginationQueryParams r) \<and> PaginatedFindAll (source res) = None"
  then have out: "handleIndex api lib res [] r info s =
      fail (HTTPError None ''Resource does not implement the PaginatedFindAll interface'' 404) [] s []"
    by (simp add: handleIndex_def Let_def)
  show "err (handleIndex api lib res [] r info s)
      = Some (HTTPError None ''Resource does not implement the PaginatedFindAll interface'' 404)"
    by (simp add: out fail_def)
  show "calls (handleIndex api lib res [] r info s) = []" by (simp add: out fail_def)
  show "statusCode (writer (route lib r (marshalers res) (handleIndex api lib res [] r info s))) = Some 404"
    by (rule route_HTTPError) (simp_all add: out fail_def)
next
  assume "isValid (newPaginationQueryParams r) \<and> PaginatedFindAll (source res) \<noteq> None"
  then show "calls (handleIndex api lib res [] r info s) = [Call_PaginatedFindAll]"
    by (auto intro: handleIndex_calls_paginated)
next
  assume a: "\<not> isValid (newPaginationQueryParams r) \<and> FindAll (source res) = None"
  then have out: "handleIndex api lib res [] r info s =
      fail (HTTPError None ''Resource does not implement the FindAll interface'' 404) [] s []"
    by (simp add: handleIndex_def Let_def)
  show "err (handleIndex api lib res [] r info s)
      = Some (HTTPError None ''Resource does not implement the FindAll interface'' 404)"
    by (simp add: out fail_def)
  show "calls (handleIndex api lib res [] r info s) = []" by (simp add: out fail_def)
  show "statusCode (writer (route lib r (marshalers res) (handleIndex api lib res [] r info s))) = Some 404"
    by (rule route_HTTPError) (simp_all add: out fail_def)
next
  assume "\<not> isValid (newPaginationQueryParams r) \<and> FindAll (source res) \<noteq> None"
  then show "calls (handleIndex api lib res [] r info s) = [Call_FindAll]"
    by (auto intro: handleIndex_calls_plain)
qed

text \<open>
  A request with \<open>page[number]=2&page[size]=10\<close> is valid and needs the paginated listing;
  the mixed request (number and limit present, size absent) is not valid and needs the
  plain listing.
\<close>

theorem handleIndex_capabilities_witness:
  "isValid (newPaginationQueryParams paged_request)
   \<and> err (handleIndex example_api (example_lib []) (example_resource 200) [] paged_request
             example_info theNode)
       = Some (HTTPError None ''Resource does not implement the PaginatedFindAll interface'' 404)
   \<and> statusCode (writer (route (example_lib []) paged_request (marshalers (example_resource 200))
         (handleIndex example_api (example_lib []) (example_resource 200) [] paged_request
             example_info theNode))) = Some 404
   \<and> calls (handleIndex example_api (example_lib []) listing_resource [] paged_request
             example_info theNode) = [Call_PaginatedFindAll]
   \<and> \<not> isValid (newPaginationQueryParams mixed_request)
   \<and> err (handleIndex example_api (example_lib []) (example_resource 200) [] mixed_request
             example_info theNode)
       = Some (HTTPError None ''Resource does not implement the FindAll interface'' 404)
   \<and> statusCode (writer (route (example_lib []) mixed_request (marshalers (example_resource 200))
         (handleIndex example_api (example_lib []) (example_resource 200) [] mixed_request
             example_info theNode))) = Some 404
   \<and> calls (handleIndex example_api (example_lib []) listing_resource [] mixed_request
             example_info theNode) = [Call_FindAll]"
proof -
  have v: "isValid (newPaginationQueryParams paged_request)"
    by (simp add: isValid_def newPaginationQueryParams_def paged_request_def Get_def)
  have nv: "\<not> isValid (newPaginationQueryParams mixed_request)"
    by (simp add: isValid_def newPaginationQueryParams_def mixed_request_def Get_def)
  have c1: "PaginatedFindAll (source (example_resource 200)) = None"
    "FindAll (source (example_resource 200)) = None"
    by (simp_all add: example_resource_def example_source_def)
  have c2: "PaginatedFindAll (source listing_resource) \<noteq> None"
    "FindAll (source listing_resource) \<noteq> None"
    by (simp_all add: listing_resource_def)
  show ?thesis
    using v nv c1 c2
      handleIndex_capabilities [of "newPaginationQueryParams paged_request" paged_request
        "example_resource 200" example_api "example_lib []" example_info theNode]
      handleIndex_capabilities [of "newPaginationQueryParams paged_request" paged_request
        listing_resource example_api "example_lib []" example_info theNode]
      handleIndex_capabilities [of "newPaginationQueryParams mixed_request" mixed_request
        "example_resource 200" example_api "example_lib []" example_info theNode]
      handleIndex_capabilities [of "newPaginationQueryParams mixed_request" mixed_request
        listing_resource example_api "example_lib []" example_info theNode]
    by simp
qed

subsection \<open>Codec selection\<close>

text \<open>
  Claim C8.  With an \<open>Accept\<close> header, the content type is negotiated over the registered
  content types with the default media type as the fallback offer, and the codec
  registered under the negotiated type is used; without \<open>Accept\<close> but with a
  \<open>Content-Type\<close> header, the codec registered under exactly that value is used; in both
  cases a type with no registered codec, and a request with neither header, get the
  default codec under the default media type.  \<open>unmarshalRequest\<close> decodes the body with
  the codec this selection gives for the request, and \<open>marshalResponse\<close> encodes the
  response with it and sends its content type.
\<close>

theorem codec_selection:
  "(Header r ''Accept'' \<noteq> None \<longrightarrow>
      selectContentMarshaler lib r ms =
        (case map_of ms (NegotiateContentType lib r (map fst ms) defaultContentTypHeader) of
           Some m \<Rightarrow> (m, NegotiateContentType lib r (map fst ms) defaultContentTypHeader)
         | None \<Rightarrow> (JSONContentMarshaler lib, defaultContentTypHeader)))
   \<and> (Header r ''Accept'' = None \<longrightarrow>
        (\<forall>ct more. Header r ''Content-Type'' = Some (ct, more) \<longrightarrow>
           selectContentMarshaler lib r ms =
             (case map_of ms ct of
                Some m \<Rightarrow> (m, ct)
              | None \<Rightarrow> (JSONContentMarshaler lib, defaultContentTypHeader))))
   \<and> (Header r ''Accept'' = None \<and> Header r ''Content-Type'' = None \<longrightarrow>
        selectContentMarshaler lib r ms = (JSONContentMarshaler lib, defaultContentTypHeader))
   \<and> unmarshalRequest lib r ms =
        (case Body r of
           Inl e \<Rightarrow> Inl e
         | Inr data \<Rightarrow> Unmarshal (fst (selectContentMarshaler lib r ms)) data)
   \<and> marshalResponse lib resp w status r ms =
        (case Marshal (fst (selectContentMarshaler lib r ms)) resp of
           Inl e \<Rightarrow> (w, Some e)
         | Inr result \<Rightarrow>
             (writeResult w result status (snd (selectContentMarshaler lib r ms)), None))"
proof (intro conjI impI allI)
  assume "Header r ''Accept'' \<noteq> None"
  then show "selectContentMarshaler lib r ms =
        (case map_of ms (NegotiateContentType lib r (map fst ms) defaultContentTypHeader) of
           Some m \<Rightarrow> (m, NegotiateContentType lib r (map fst ms) defaultContentTypHeader)
         | None \<Rightarrow> (JSONContentMarshaler lib, defaultContentTypHeader))"
    by (simp add: selectContentMarshaler_def Let_def split: option.splits)
next
  fix ct more
  assume "Header r ''Accept'' = None" "Header r ''Content-Type'' = Some (ct, more)"
  then show "selectContentMarshaler lib r ms =
             (case map_of ms ct of
                Some m \<Rightarrow> (m, ct)
              | None \<Rightarrow> (JSONContentMarshaler lib, defaultContentTypHeader))"
    by (simp add: selectContentMarshaler_def split: option.splits)
next
  assume "Header r ''Accept'' = None \<and> Header r ''Content-Type'' = None"
  then show "selectContentMarshaler lib r ms = (JSONContentMarshaler lib, defaultContentTypHeader)"
    by (simp add: selectContentMarshaler_def)
next
  show "unmarshalRequest lib r ms =
        (case Body r of
           Inl e \<Rightarrow> Inl e
         | Inr data \<Rightarrow> Unmarshal (fst (selectContentMarshaler lib r ms)) data)"
    by (simp add: unmarshalRequest_def split: sum.splits prod.splits)
next
  show "marshalResponse lib resp w status r ms =
        (case Marshal (fst (selectContentMarshaler lib r ms)) resp of
           Inl e \<Rightarrow> (w, Some e)
         | Inr result \<Rightarrow>
             (writeResult w result status (snd (selectContentMarshaler lib r ms)), None))"
    by (simp add: marshalResponse_def split: sum.splits prod.splits)
qed

text \<open>
  With one codec registered for \<open>application/xml\<close>: a request with that \<open>Content-Type\<close>
  is decoded and answered by it; a request that also has an \<open>Accept\<close> header is
  negotiated (here to the default); a request without headers gets the default.
\<close>

theorem codec_selection_witness:
  "selectContentMarshaler (example_lib []) xml_request xml_registry
     = (example_codec [(''data'', JNull)], ''application/xml'')
   \<and> selectContentMarshaler (example_lib []) accept_request xml_registry
     = (example_codec [], ''application/vnd.api+json'')
   \<and> selectContentMarshaler (example_lib []) example_request xml_registry
     = (example_codec [], ''application/vnd.api+json'')
   \<and> unmarshalRequest (example_lib []) xml_request xml_registry = Inr [(''data'', JNull)]
   \<and> marshalResponse (example_lib []) \<lparr> members = [], doc_links = None, doc_meta = None \<rparr> [] 200
        xml_request xml_registry
     = ([SetHeader ''Content-Type'' ''application/xml'', WriteHeader 200, Write ''document''], None)"
proof -
  have h: "Header xml_request ''Accept'' = None"
    "Header xml_request ''Content-Type'' = Some (''application/xml'', [])"
    "Header accept_request ''Accept'' \<noteq> None"
    "Header example_request ''Accept'' = None \<and> Header example_request ''Content-Type'' = None"
    by (simp_all add: xml_request_def accept_request_def example_request_def)
  have b: "Body xml_request = Inr ''<node/>''" by (simp add: xml_request_def)
  show ?thesis
    using h
      codec_selection [of xml_request "example_lib []" xml_registry
        "\<lparr> members = [], doc_links = None, doc_meta = None \<rparr>" "[]" 200]
      codec_selection [of accept_request "example_lib []" xml_registry]
      codec_selection [of example_request "example_lib []" xml_registry]
    by (simp add: b xml_registry_def example_lib_def example_codec_def defaultContentTypHeader_def
        writeResult_def)
qed

subsection \<open>Facts about the example inputs\<close>

lemma example_unmarshal: "unmarshalRequest (example_lib ctx) example_request [] = Inr ctx"
  by (simp add: unmarshalRequest_def selectContentMarshaler_def example_request_def example_lib_def
      example_codec_def)



lemma example_marshalers:
  "marshalers (example_resource status) = []" "marshalers failing_resource = []"
  by (simp_all add: example_resource_def failing_resource_def)

subsection \<open>Relationship edits answer 204 once Update is reached\<close>

lemma statusCode_append_WriteHeader: "statusCode ([WriteHeader n] @ es) = Some n"
  by simp











subsection \<open>To-many relationship edits\<close>








subsection \<open>Create\<close>

lemma respondWith_ok:
  "MarshalWithURLs api (Result obj) info = Inr data \<Longrightarrow>
   Marshal (fst (selectContentMarshaler lib r ms))
     \<lparr> members = data, doc_links = None,
       doc_meta = (if length (Metadata obj) > 0 then Some (Metadata obj) else None) \<rparr> = Inr body \<Longrightarrow>
   respondWith api lib obj info status w r ms =
     (w @ [SetHeader ''Content-Type'' (snd (selectContentMarshaler lib r ms)),
           WriteHeader status, Write body], None)"
  by (auto simp: respondWith_def marshalResponse_def writeResult_def Let_def split: prod.splits)

lemma example_Create:
  "Create (source (example_resource status)) obj req stored
     = (Inr \<lparr> Meta = [], Data = Some obj, Status = status \<rparr>, obj)"
  "Create (source silent_resource) obj req stored
     = (Inr \<lparr> Meta = [], Data = None, Status = 204 \<rparr>, obj)"
  by (simp_all add: example_resource_def silent_resource_def example_source_def)

lemma example_names:
  "name (example_resource status) = ''nodes''" "name silent_resource = ''nodes''"
  "marshalers silent_resource = []"
  by (simp_all add: example_resource_def silent_resource_def)

lemma example_new: "UnmarshalInto example_api ctx [] = Inr [newNode]"
  by (simp add: example_api_def newNode_def)

lemma example_select:
  "selectContentMarshaler (example_lib ctx) example_request [] =
     (example_codec ctx, ''application/vnd.api+json'')"
  by (simp add: selectContentMarshaler_def example_request_def example_lib_def
      defaultContentTypHeader_def)

text \<open>The handler when the backend's result implements \<open>MarshalIdentifier\<close>.\<close>

lemma handleCreate_identified:
  assumes body: "unmarshalRequest lib r (marshalers res) = Inr ctx"
    and one: "UnmarshalInto api ctx [] = Inr [newObj]"
    and created: "Create (source res) newObj (buildRequest r) s = (Inr resp, s1)"
    and obj: "Result resp = Some result" and ident: "GetID api result = Some ident"
  shows
   "calls (handleCreate api lib res [] r pfx info s) = [Call_Create newObj]
    \<and> backend (handleCreate api lib res [] r pfx info s) = s1
    \<and> (StatusCode resp = 201 \<longrightarrow>
         (writer (handleCreate api lib res [] r pfx info s), err (handleCreate api lib res [] r pfx info s))
           = respondWith api lib resp info 201
               [SetHeader ''Location'' (pfx @ name res @ ''/'' @ ident)] r (marshalers res))
    \<and> (StatusCode resp = 201 \<longrightarrow>
         (\<forall>data encoded.
            MarshalWithURLs api (Some result) info = Inr data \<and>
            Marshal (fst (selectContentMarshaler lib r (marshalers res)))
              \<lparr> members = data, doc_links = None,
                doc_meta = (if length (Metadata resp) > 0 then Some (Metadata resp) else None) \<rparr>
              = Inr encoded \<longrightarrow>
            err (handleCreate api lib res [] r pfx info s) = None
            \<and> writer (handleCreate api lib res [] r pfx info s)
               = [SetHeader ''Location'' (pfx @ name res @ ''/'' @ ident),
                  SetHeader ''Content-Type'' (snd (selectContentMarshaler lib r (marshalers res))),
                  WriteHeader 201, Write encoded]))
    \<and> (StatusCode resp = 202 \<or> StatusCode resp = 204 \<longrightarrow>
         err (handleCreate api lib res [] r pfx info s) = None
         \<and> writer (handleCreate api lib res [] r pfx info s)
            = [SetHeader ''Location'' (pfx @ name res @ ''/'' @ ident), WriteHeader (StatusCode resp)])
    \<and> (StatusCode resp \<noteq> 201 \<and> StatusCode resp \<noteq> 202 \<and> StatusCode resp \<noteq> 204 \<longrightarrow>
         err (handleCreate api lib res [] r pfx info s)
           = Some (Error (''invalid status code '' @ Itoa (StatusCode resp) @ '' from resource ''
                     @ name res @ '' for method Create''))
         \<and> statusCode (writer (route lib r (marshalers res) (handleCreate api lib res [] r pfx info s)))
           = Some 500)"
proof -
  let ?loc = "SetHeader ''Location'' (pfx @ name res @ ''/'' @ ident)"
  let ?out = "handleCreate api lib res [] r pfx info s"
  have unfold: "?out =
      (if StatusCode resp = 201 then
         finish (respondWith api lib resp info 201 [?loc] r (marshalers res)) s1 [Call_Create newObj]
       else if StatusCode resp = 204 then
         finish ([?loc] @ [WriteHeader (StatusCode resp)], None) s1 [Call_Create newObj]
       else if StatusCode resp = 202 then
         finish ([?loc] @ [WriteHeader (StatusCode resp)], None) s1 [Call_Create newObj]
       else
         fail (Error (''invalid status code '' @ Itoa (StatusCode resp) @ '' from resource ''
                 @ name res @ '' for method Create'')) [?loc] s1 [Call_Create newObj])"
    by (simp add: handleCreate_def body one created obj ident Let_def)
  have c: "calls ?out = [Call_Create newObj]" "backend ?out = s1"
    by (simp_all add: unfold finish_def fail_def)
  have s201: "StatusCode resp = 201 \<Longrightarrow>
      (writer ?out, err ?out) = respondWith api lib resp info 201 [?loc] r (marshalers res)"
    by (simp add: unfold finish_def)
  have echo: "\<And>data encoded. StatusCode resp = 201 \<Longrightarrow>
      MarshalWithURLs api (Some result) info = Inr data \<and>
      Marshal (fst (selectContentMarshaler lib r (marshalers res)))
        \<lparr> members = data, doc_links = None,
          doc_meta = (if length (Metadata resp) > 0 then Some (Metadata resp) else None) \<rparr>
        = Inr encoded \<Longrightarrow>
      err ?out = None \<and> writer ?out
         = [?loc, SetHeader ''Content-Type'' (snd (selectContentMarshaler lib r (marshalers res))),
            WriteHeader 201, Write encoded]"
  proof -
    fix data encoded
    assume st: "StatusCode resp = 201"
      and m: "MarshalWithURLs api (Some result) info = Inr data \<and>
        Marshal (fst (selectContentMarshaler lib r (marshalers res)))
          \<lparr> members = data, doc_links = None,
            doc_meta = (if length (Metadata resp) > 0 then Some (Metadata resp) else None) \<rparr>
          = Inr encoded"
    have "respondWith api lib resp info 201 [?loc] r (marshalers res) =
        ([?loc] @ [SetHeader ''Content-Type'' (snd (selectContentMarshaler lib r (marshalers res))),
           WriteHeader 201, Write encoded], None)"
      using m by (intro respondWith_ok) (auto simp: obj)
    with s201 [OF st] show "err ?out = None \<and> writer ?out
         = [?loc, SetHeader ''Content-Type'' (snd (selectContentMarshaler lib r (marshalers res))),
            WriteHeader 201, Write encoded]"
      by simp
  qed
  have fwd: "StatusCode resp = 202 \<or> StatusCode resp = 204 \<Longrightarrow>
      err ?out = None \<and> writer ?out = [?loc, WriteHeader (StatusCode resp)]"
    by (auto simp: unfold finish_def)
  have bad: "StatusCode resp \<noteq> 201 \<and> StatusCode resp \<noteq> 202 \<and> StatusCode resp \<noteq> 204 \<Longrightarrow>
      err ?out = Some (Error (''invalid status code '' @ Itoa (StatusCode resp) @ '' from resource ''
                     @ name res @ '' for method Create''))
      \<and> statusCode (writer (route lib r (marshalers res) ?out)) = Some 500"
  proof -
    assume a: "StatusCode resp \<noteq> 201 \<and> StatusCode resp \<noteq> 202 \<and> StatusCode resp \<noteq> 204"
    then have e: "err ?out = Some (Error (''invalid status code '' @ Itoa (StatusCode resp)
        @ '' from resource '' @ name res @ '' for method Create''))"
      and w: "writer ?out = [?loc]"
      by (simp_all add: unfold fail_def)
    have "statusCode (writer (route lib r (marshalers res) ?out)) = Some 500"
      by (rule route_Error [OF e]) (simp add: w)
    with e show ?thesis by simp
  qed
  show ?thesis
    using c s201 echo fwd bad by blast
qed

text \<open>The handler when it does not: the type assertion fails before the status is read.\<close>

lemma handleCreate_unidentified:
  assumes body: "unmarshalRequest lib r (marshalers res) = Inr ctx"
    and one: "UnmarshalInto api ctx [] = Inr [newObj]"
    and created: "Create (source res) newObj (buildRequest r) s = (Inr resp, s1)"
    and none: "Result resp = None \<or> (\<exists>v. Result resp = Some v \<and> GetID api v = None)"
  shows "handleCreate api lib res [] r pfx info s =
    fail (Error (''Expected one newly created object by resource '' @ name res)) [] s1
      [Call_Create newObj]"
  using none by (auto simp: handleCreate_def body one created)

lemma example_teapot:
  "Create (source teapot_resource) obj req stored
     = (Inr \<lparr> Meta = [], Data = None, Status = 418 \<rparr>, obj)"
  "name teapot_resource = ''nodes''" "marshalers teapot_resource = []"
  by (simp_all add: teapot_resource_def)

text \<open>
  Claim C1, amended.  Let the request body decode to one object and let the backend's
  \<open>Create\<close> succeed.  When its result is an object that implements \<open>MarshalIdentifier\<close>,
  the \<open>Location\<close> header is set to prefix, resource name, a slash and the object's id,
  and: on status 201 the handler answers as \<open>respondWith\<close> does for the backend's response
  at status 201, which, when marshalling succeeds, is the \<open>Content-Type\<close> header, the
  status 201 and the encoded document of the created object; on 202 and 204 it writes the
  backend's status and no body; on any other status it returns the error
  \<open>invalid status code ... for method Create\<close>.  Whatever the result is, a status other
  than 201, 202 and 204 ends in a named error (that one, or
  \<open>Expected one newly created object\<close> when the result is not such an object), and the
  route answers it with status 500, never with a 2xx status.
\<close>

theorem handleCreate_statuses:
  assumes body: "unmarshalRequest lib r (marshalers res) = Inr ctx"
    and one: "UnmarshalInto api ctx [] = Inr [newObj]"
    and created: "Create (source res) newObj (buildRequest r) s = (Inr resp, s1)"
  shows
   "calls (handleCreate api lib res [] r pfx info s) = [Call_Create newObj]
    \<and> backend (handleCreate api lib res [] r pfx info s) = s1
    \<and> (\<forall>result ident. Result resp = Some result \<and> GetID api result = Some ident \<longrightarrow>
         (StatusCode resp = 201 \<longrightarrow>
            (writer (handleCreate api lib res [] r pfx info s),
             err (handleCreate api lib res [] r pfx info s))
              = respondWith api lib resp info 201
                  [SetHeader ''Location'' (pfx @ name res @ ''/'' @ ident)] r (marshalers res))
         \<and> (StatusCode resp = 201 \<longrightarrow>
            (\<forall>data encoded.
               MarshalWithURLs api (Some result) info = Inr data \<and>
               Marshal (fst (selectContentMarshaler lib r (marshalers res)))
                 \<lparr> members = data, doc_links = None,
                   doc_meta = (if length (Metadata resp) > 0 then Some (Metadata resp) else None) \<rparr>
                 = Inr encoded \<longrightarrow>
               err (handleCreate api lib res [] r pfx info s) = None
               \<and> writer (handleCreate api lib res [] r pfx info s)
                  = [SetHeader ''Location'' (pfx @ name res @ ''/'' @ ident),
                     SetHeader ''Content-Type'' (snd (selectContentMarshaler lib r (marshalers res))),
                     WriteHeader 201, Write encoded]))
         \<and> (StatusCode resp = 202 \<or> StatusCode resp = 204 \<longrightarrow>
            err (handleCreate api lib res [] r pfx info s) = None
            \<and> writer (handleCreate api lib res [] r pfx info s)
               = [SetHeader ''Location'' (pfx @ name res @ ''/'' @ ident),
                  WriteHeader (StatusCode resp)])
         \<and> (StatusCode resp \<noteq> 201 \<and> StatusCode resp \<noteq> 202 \<and> StatusCode resp \<noteq> 204 \<longrightarrow>
            err (handleCreate api lib res [] r pfx info s)
              = Some (Error (''invalid status code '' @ Itoa (StatusCode resp) @ '' from resource ''
                        @ name res @ '' for method Create''))))
    \<and> (StatusCode resp \<noteq> 201 \<and> StatusCode resp \<noteq> 202 \<and> StatusCode resp \<noteq> 204 \<longrightarrow>
         (err (handleCreate api lib res [] r pfx info s)
            = Some (Error (''invalid status code '' @ Itoa (StatusCode resp) @ '' from resource ''
                      @ name res @ '' for method Create''))
          \<or> err (handleCreate api lib res [] r pfx info s)
            = Some (Error (''Expected one newly created object by resource '' @ name res)))
         \<and> statusCode (writer (route lib r (marshalers res) (handleCreate api lib res [] r pfx info s)))
           = Some 500)"
proof -
  let ?out = "handleCreate api lib res [] r pfx info s"
  let ?expected = "Error (''Expected one newly created object by resource '' @ name res)"
  have idents: "(\<exists>result ident. Result resp = Some result \<and> GetID api result = Some ident)
      \<or> Result resp = None \<or> (\<exists>v. Result resp = Some v \<and> GetID api v = None)"
    by (cases "Result resp") auto
  have c: "calls ?out = [Call_Create newObj] \<and> backend ?out = s1"
    using idents
  proof (elim disjE exE conjE)
    fix result ident
    assume "Result resp = Some result" "GetID api result = Some ident"
    then show ?thesis using handleCreate_identified [OF body one created, of result ident pfx info]
      by simp
  next
    assume "Result resp = None"
    then show ?thesis
      using handleCreate_unidentified [OF body one created, of pfx info] by (simp add: fail_def)
  next
    fix v
    assume "Result resp = Some v" "GetID api v = None"
    then show ?thesis
      using handleCreate_unidentified [OF body one created, of pfx info] by (simp add: fail_def)
  qed
  have withObject: "\<And>result ident. Result resp = Some result \<and> GetID api result = Some ident \<Longrightarrow>
      (StatusCode resp = 201 \<longrightarrow>
         (writer ?out, err ?out) = respondWith api lib resp info 201
            [SetHeader ''Location'' (pfx @ name res @ ''/'' @ ident)] r (marshalers res))
      \<and> (StatusCode resp = 201 \<longrightarrow>
         (\<forall>data encoded.
            MarshalWithURLs api (Some result) info = Inr data \<and>
            Marshal (fst (selectContentMarshaler lib r (marshalers res)))
              \<lparr> members = data, doc_links = None,
                doc_meta = (if length (Metadata resp) > 0 then Some (Metadata resp) else None) \<rparr>
              = Inr encoded \<longrightarrow>
            err ?out = None
            \<and> writer ?out
               = [SetHeader ''Location'' (pfx @ name res @ ''/'' @ ident),
                  SetHeader ''Content-Type'' (snd (selectContentMarshaler lib r (marshalers res))),
                  WriteHeader 201, Write encoded]))
      \<and> (StatusCode resp = 202 \<or> StatusCode resp = 204 \<longrightarrow>
         err ?out = None
         \<and> writer ?out
            = [SetHeader ''Location'' (pfx @ name res @ ''/'' @ ident), WriteHeader (StatusCode resp)])
      \<and> (StatusCode resp \<noteq> 201 \<and> StatusCode resp \<noteq> 202 \<and> StatusCode resp \<noteq> 204 \<longrightarrow>
         err ?out
           = Some (Error (''invalid status code '' @ Itoa (StatusCode resp) @ '' from resource ''
                     @ name res @ '' for method Create'')))"
  proof -
    fix result ident
    assume a: "Result resp = Some result \<and> GetID api result = Some ident"
    then have "Result resp = Some result" "GetID api result = Some ident" by simp_all
    from handleCreate_identified [OF body one created this, of pfx info]
    show "(StatusCode resp = 201 \<longrightarrow>
         (writer ?out, err ?out) = respondWith api lib resp info 201
            [SetHeader ''Location'' (pfx @ name res @ ''/'' @ ident)] r (marshalers res))
      \<and> (StatusCode resp = 201 \<longrightarrow>
         (\<forall>data encoded.
            MarshalWithURLs api (Some result) info = Inr data \<and>
            Marshal (fst (selectContentMarshaler lib r (marshalers res)))
              \<lparr> members = data, doc_links = None,
                doc_meta = (if length (Metadata resp) > 0 then Some (Metadata resp) else None) \<rparr>
              = Inr encoded \<longrightarrow>
            err ?out = None
            \<and> writer ?out
               = [SetHeader ''Location'' (pfx @ name res @ ''/'' @ ident),
                  SetHeader ''Content-Type'' (snd (selectContentMarshaler lib r (marshalers res))),
                  WriteHeader 201, Write encoded]))
      \<and> (StatusCode resp = 202 \<or> StatusCode resp = 204 \<longrightarrow>
         err ?out = None
         \<and> writer ?out
            = [SetHeader ''Location'' (pfx @ name res @ ''/'' @ ident), WriteHeader (StatusCode resp)])
      \<and> (StatusCode resp \<noteq> 201 \<and> StatusCode resp \<noteq> 202 \<and> StatusCode resp \<noteq> 204 \<longrightarrow>
         err ?out
           = Some (Error (''invalid status code '' @ Itoa (StatusCode resp) @ '' from resource ''
                     @ name res @ '' for method Create'')))"
      by blast
  qed
  have unsupported: "StatusCode resp \<noteq> 201 \<and> StatusCode resp \<noteq> 202 \<and> StatusCode resp \<noteq> 204 \<Longrightarrow>
      (err ?out = Some (Error (''invalid status code '' @ Itoa (StatusCode resp) @ '' from resource ''
                      @ name res @ '' for method Create''))
        \<or> err ?out = Some ?expected)
      \<and> statusCode (writer (route lib r (marshalers res) ?out)) = Some 500"
  proof -
    assume st: "StatusCode resp \<noteq> 201 \<and> StatusCode resp \<noteq> 202 \<and> StatusCode resp \<noteq> 204"
    from idents show ?thesis
    proof (elim disjE exE conjE)
      fix result ident
      assume "Result resp = Some result" "GetID api result = Some ident"
      from handleCreate_identified [OF body one created this, of pfx info] st
      show ?thesis by blast
    next
      assume "Result resp = None"
      then have out: "?out = fail ?expected [] s1 [Call_Create newObj]"
        using handleCreate_unidentified [OF body one created, of pfx info] by simp
      have "statusCode (writer (route lib r (marshalers res) ?out)) = Some 500"
        by (rule route_Error [of _ "''Expected one newly created object by resource '' @ name res"])
          (simp_all add: out fail_def)
      then show ?thesis by (simp add: out fail_def)
    next
      fix v
      assume "Result resp = Some v" "GetID api v = None"
      then have out: "?out = fail ?expected [] s1 [Call_Create newObj]"
        using handleCreate_unidentified [OF body one created, of pfx info] by simp
      have "statusCode (writer (route lib r (marshalers res) ?out)) = Some 500"
        by (rule route_Error [of _ "''Expected one newly created object by resource '' @ name res"])
          (simp_all add: out fail_def)
      then show ?thesis by (simp add: out fail_def)
    qed
  qed
  show ?thesis
    using c withObject unsupported by blast
qed

text \<open>
  A backend that answers 201 is echoed with its \<open>Location\<close>; one that answers 204 gets
  the status forwarded without a body; one that answers 418 gets the named error and the
  response status 500, with an object and without one.
\<close>

theorem handleCreate_statuses_witness:
  "writer (handleCreate example_api (example_lib []) (example_resource 201) [] example_request
             ''/v1/'' example_info theNode)
     = [SetHeader ''Location'' ''/v1/nodes/new'',
        SetHeader ''Content-Type'' ''application/vnd.api+json'', WriteHeader 201, Write ''document'']
   \<and> writer (handleCreate example_api (example_lib []) (example_resource 204) [] example_request
             ''/v1/'' example_info theNode)
     = [SetHeader ''Location'' ''/v1/nodes/new'', WriteHeader 204]
   \<and> err (handleCreate example_api (example_lib []) (example_resource 418) [] example_request
             ''/v1/'' example_info theNode)
     = Some (Error ''invalid status code 418 from resource nodes for method Create'')
   \<and> statusCode (writer (route (example_lib []) example_request (marshalers (example_resource 418))
         (handleCreate example_api (example_lib []) (example_resource 418) [] example_request
             ''/v1/'' example_info theNode))) = Some 500
   \<and> statusCode (writer (route (example_lib []) example_request (marshalers teapot_resource)
         (handleCreate example_api (example_lib []) teapot_resource [] example_request
             ''/v1/'' example_info theNode))) = Some 500"
proof -
  have u: "\<And>status. unmarshalRequest (example_lib []) example_request
      (marshalers (example_resource status)) = Inr []"
    by (simp only: example_marshalers example_unmarshal)
  have ut: "unmarshalRequest (example_lib []) example_request (marshalers teapot_resource) = Inr []"
    by (simp only: example_teapot example_unmarshal)
  have g: "GetID example_api newNode = Some ''new''"
    by (simp add: example_api_def Node_GetID_def newNode_def)
  have i: "Itoa 418 = ''418''" by (simp add: Itoa_def decimal_eval)
  have mw: "MarshalWithURLs example_api (Some newNode) example_info = Inr []"
    by (simp add: example_api_def)
  show ?thesis
    using handleCreate_statuses [OF u [of 201] example_new
        example_Create(1) [of 201 newNode "buildRequest example_request" theNode],
        where pfx = "''/v1/''" and info = example_info]
      handleCreate_statuses [OF u [of 204] example_new
        example_Create(1) [of 204 newNode "buildRequest example_request" theNode],
        where pfx = "''/v1/''" and info = example_info]
      handleCreate_statuses [OF u [of 418] example_new
        example_Create(1) [of 418 newNode "buildRequest example_request" theNode],
        where pfx = "''/v1/''" and info = example_info]
      handleCreate_statuses [OF ut example_new
        example_teapot(1) [of newNode "buildRequest example_request" theNode],
        where pfx = "''/v1/''" and info = example_info]
    by (simp add: StatusCode_def Metadata_def Result_def g example_names example_marshalers
        example_teapot example_select example_codec_def i mw)
qed

text \<open>
  Without an identifiable result the claim fails as stated: a backend that reports 204 and
  returns no object is not forwarded but answered with the error
  \<open>Expected one newly created object\<close> and the response status 500.
\<close>

theorem handleCreate_statuses_counterexample:
  "Create (source silent_resource) newNode (buildRequest example_request) theNode
     = (Inr \<lparr> Meta = [], Data = None, Status = 204 \<rparr>, newNode)
   \<and> err (handleCreate example_api (example_lib []) silent_resource [] example_request
             ''/v1/'' example_info theNode)
     = Some (Error ''Expected one newly created object by resource nodes'')
   \<and> statusCode (writer (route (example_lib []) example_request (marshalers silent_resource)
         (handleCreate example_api (example_lib []) silent_resource [] example_request
             ''/v1/'' example_info theNode))) = Some 500"
proof -
  have out: "handleCreate example_api (example_lib []) silent_resource [] example_request
             ''/v1/'' example_info theNode
      = fail (Error ''Expected one newly created object by resource nodes'') [] newNode
          [Call_Create newNode]"
    by (simp add: handleCreate_def example_names example_unmarshal example_new example_Create
        Result_def)
  have "statusCode (writer (route (example_lib []) example_request (marshalers silent_resource)
         (handleCreate example_api (example_lib []) silent_resource [] example_request
             ''/v1/'' example_info theNode))) = Some 500"
    by (rule route_Error [of _ "''Expected one newly created object by resource nodes''"])
      (simp_all add: out fail_def)
  then show ?thesis by (simp add: out fail_def example_Create)
qed

subsection \<open>Update\<close>




subsection \<open>Relationships that share a target type\<close>

lemma map_of_keyed:
  "distinct (map k xs) \<Longrightarrow> x \<in> set xs \<Longrightarrow> map_of (map (\<lambda>y. (k y, f y)) xs) (k x) = Some (f x)"
  by (induction xs) (auto simp: image_iff)

text \<open>
  Claim C7, on the marshaller as the specification describes it.  For an object whose
  declared relationships have distinct names, whatever their target types, the marshalled
  relationships have one entry per declared relationship, keyed by its name and in the
  order of the declaration.  The entry of a to-many relationship is the sequence of the
  linkages of exactly the referenced ids that carry its name, in their source order; the
  entry of a to-one relationship with one such id is that single linkage.  The target type
  plays no part in the grouping.
\<close>

theorem marshal_same_type:
  assumes names: "distinct (map Name references)"
  shows
   "map fst (marshalRelationships toMany references referencedIDs) = map Name references
    \<and> (\<forall>reference \<in> set references.
         toMany (Name reference) \<longrightarrow>
           map_of (marshalRelationships toMany references referencedIDs) (Name reference)
             = Some (Sequence (map linkageOf
                 (filter (\<lambda>i. Name i = Name reference) referencedIDs))))
    \<and> (\<forall>reference \<in> set references.
         \<not> toMany (Name reference) \<longrightarrow>
           (\<forall>i. filter (\<lambda>i. Name i = Name reference) referencedIDs = [i] \<longrightarrow>
              map_of (marshalRelationships toMany references referencedIDs) (Name reference)
                = Some (Single (Some (linkageOf i)))))"
proof (intro conjI ballI impI allI)
  show "map fst (marshalRelationships toMany references referencedIDs) = map Name references"
    by (simp add: marshalRelationships_def Let_def comp_def)
next
  fix reference
  assume r: "reference \<in> set references" and m: "toMany (Name reference)"
  have "map_of (marshalRelationships toMany references referencedIDs) (Name reference)
      = Some (let matching = filter (\<lambda>i. Name i = Name reference) referencedIDs in
              if toMany (Name reference) then Sequence (map linkageOf matching)
              else Single (case matching of [] \<Rightarrow> None | i # rest \<Rightarrow> Some (linkageOf i)))"
    unfolding marshalRelationships_def
    using map_of_keyed [OF names r, of "\<lambda>reference.
        (let matching = filter (\<lambda>i. Name i = Name reference) referencedIDs in
         if toMany (Name reference) then Sequence (map linkageOf matching)
         else Single (case matching of [] \<Rightarrow> None | i # rest \<Rightarrow> Some (linkageOf i)))"]
    by (simp add: Let_def)
  with m show "map_of (marshalRelationships toMany references referencedIDs) (Name reference)
             = Some (Sequence (map linkageOf
                 (filter (\<lambda>i. Name i = Name reference) referencedIDs)))"
    by (simp add: Let_def)
next
  fix reference i
  assume r: "reference \<in> set references" and m: "\<not> toMany (Name reference)"
    and one: "filter (\<lambda>i. Name i = Name reference) referencedIDs = [i]"
  have "map_of (marshalRelationships toMany references referencedIDs) (Name reference)
      = Some (let matching = filter (\<lambda>i. Name i = Name reference) referencedIDs in
              if toMany (Name reference) then Sequence (map linkageOf matching)
              else Single (case matching of [] \<Rightarrow> None | i # rest \<Rightarrow> Some (linkageOf i)))"
    unfolding marshalRelationships_def
    using map_of_keyed [OF names r, of "\<lambda>reference.
        (let matching = filter (\<lambda>i. Name i = Name reference) referencedIDs in
         if toMany (Name reference) then Sequence (map linkageOf matching)
         else Single (case matching of [] \<Rightarrow> None | i # rest \<Rightarrow> Some (linkageOf i)))"]
    by (simp add: Let_def)
  with m one show "map_of (marshalRelationships toMany references referencedIDs) (Name reference)
                = Some (Single (Some (linkageOf i)))"
    by (simp add: Let_def)
qed

text \<open>
  The node of the test: three relationships, all of type \<open>nodes\<close>, marshal into three
  entries: \<open>mother-node\<close> with the single linkage 1337, \<open>child-nodes\<close> with 666 and 42 in
  this order, \<open>abandoned-child-nodes\<close> with 2 and 1 in this order.
\<close>

theorem marshal_same_type_witness:
  "distinct (map Name (GetReferences theNode))
   \<and> map Type (GetReferences theNode) = [''nodes'', ''nodes'', ''nodes'']
   \<and> marshalRelationships nodeToMany (GetReferences theNode) (GetReferencedIDs theNode)
     = [(''mother-node'', Single (Some \<lparr> linkage_type = ''nodes'', linkage_id = ''1337'' \<rparr>)),
        (''child-nodes'', Sequence [\<lparr> linkage_type = ''nodes'', linkage_id = ''666'' \<rparr>,
                                    \<lparr> linkage_type = ''nodes'', linkage_id = ''42'' \<rparr>]),
        (''abandoned-child-nodes'', Sequence [\<lparr> linkage_type = ''nodes'', linkage_id = ''2'' \<rparr>,
                                              \<lparr> linkage_type = ''nodes'', linkage_id = ''1'' \<rparr>])]
   \<and> map_of (marshalRelationships nodeToMany (GetReferences theNode) (GetReferencedIDs theNode))
        ''child-nodes''
     = Some (Sequence [\<lparr> linkage_type = ''nodes'', linkage_id = ''666'' \<rparr>,
                       \<lparr> linkage_type = ''nodes'', linkage_id = ''42'' \<rparr>])"
proof -
  have d: "distinct (map Name (GetReferences theNode))"
    by (simp add: GetReferences_def)
  have t: "map Type (GetReferences theNode) = [''nodes'', ''nodes'', ''nodes'']"
    by (simp add: GetReferences_def)
  have e: "marshalRelationships nodeToMany (GetReferences theNode) (GetReferencedIDs theNode)
     = [(''mother-node'', Single (Some \<lparr> linkage_type = ''nodes'', linkage_id = ''1337'' \<rparr>)),
        (''child-nodes'', Sequence [\<lparr> linkage_type = ''nodes'', linkage_id = ''666'' \<rparr>,
                                    \<lparr> linkage_type = ''nodes'', linkage_id = ''42'' \<rparr>]),
        (''abandoned-child-nodes'', Sequence [\<lparr> linkage_type = ''nodes'', linkage_id = ''2'' \<rparr>,
                                              \<lparr> linkage_type = ''nodes'', linkage_id = ''1'' \<rparr>])]"
    by (simp add: marshalRelationships_def GetReferences_def GetReferencedIDs_def theNode_def
        nodeToMany_def linkageOf_def Let_def)
  have c: "\<lparr> Type = ''nodes'', Name = ''child-nodes'' \<rparr> \<in> set (GetReferences theNode)"
    by (simp add: GetReferences_def)
  have f: "filter (\<lambda>i. Name i = ''child-nodes'') (GetReferencedIDs theNode)
      = [\<lparr> Type = ''nodes'', Name = ''child-nodes'', ID = ''666'' \<rparr>,
         \<lparr> Type = ''nodes'', Name = ''child-nodes'', ID = ''42'' \<rparr>]"
    by (simp add: GetReferencedIDs_def theNode_def Let_def)
  have "map_of (marshalRelationships nodeToMany (GetReferences theNode) (GetReferencedIDs theNode))
        ''child-nodes''
     = Some (Sequence [\<lparr> linkage_type = ''nodes'', linkage_id = ''666'' \<rparr>,
                       \<lparr> linkage_type = ''nodes'', linkage_id = ''42'' \<rparr>])"
    using marshal_same_type [OF d, of nodeToMany "GetReferencedIDs theNode"] c
    by (auto simp: f nodeToMany_def linkageOf_def)
  with d t e show ?thesis by simp
qed

end
